theory Spec2Isabelle
  imports Complex_Main
begin

section \<open>Numbers\<close>

text \<open>
  A JavaScript number is modelled as a real. In the definitions that are not named
  \<open>_rounded\<close> the arithmetic is exact and the decimal literal \<open>0.3\<close> is the rational
  \<open>3/10\<close>: they say which operations the source applies to which operands, and the
  rounding of IEEE doubles is outside them; \<open>jsdiv\<close> is the exact quotient. A division
  can leave the finite numbers (\<open>x / 0\<close> is an infinity or NaN in JavaScript), so the
  result of a division is a \<open>number\<close>: \<open>NonFinite\<close> stands for NaN and both infinities. An operation with a \<open>NonFinite\<close> operand is
  modelled as \<open>NonFinite\<close>; this over-approximates the non-finite results, so a result
  that is \<open>Finite\<close> in the model was computed without any division by zero.
\<close>

datatype number = Finite real | NonFinite

definition jsdiv :: "real \<Rightarrow> real \<Rightarrow> number" where
  "jsdiv a b = (if b = 0 then NonFinite else Finite (a / b))"

fun Math_min :: "number \<Rightarrow> number \<Rightarrow> number" where
  "Math_min (Finite a) (Finite b) = Finite (min a b)"
| "Math_min _ _ = NonFinite"

subsection \<open>Rounding\<close>

text \<open>
  An arithmetic operation on doubles gives the exact result rounded to a double, and a
  decimal literal is the double its value rounds to. In the definitions named
  \<open>_rounded\<close> the rounding of every operation and literal is written out, as a function
  \<open>rnd\<close> that is a parameter; with the identity for \<open>rnd\<close> they are the exact
  definitions. \<open>rounds_within u rnd x\<close> says that the rounding moves \<open>x\<close> by at most the
  relative error \<open>u\<close>. IEEE 754 binary64 arithmetic rounds to nearest: it rounds every
  result in its normal range within \<open>u = 2\<^sup>-\<^sup>5\<^sup>3\<close>.
\<close>

definition rounds_within :: "real \<Rightarrow> (real \<Rightarrow> real) \<Rightarrow> real \<Rightarrow> bool" where
  "rounds_within u rnd x = (\<bar>rnd x - x\<bar> \<le> u * \<bar>x\<bar>)"

definition jsdiv_rounded :: "(real \<Rightarrow> real) \<Rightarrow> real \<Rightarrow> real \<Rightarrow> number" where
  "jsdiv_rounded rnd a b = (if b = 0 then NonFinite else Finite (rnd (a / b)))"

section \<open>The Graph component (Graph.tsx)\<close>

datatype ZoomType = IN | OUT | FIT

record GraphState =
  zoomInLimitReached :: bool
  zoomOutLimitReached :: bool
  displayingWheelZoomInfoMessage :: bool
  zoomLevel :: real

text \<open>The state set by the constructor of the component.\<close>

definition Graph_initial_state :: GraphState where
  "Graph_initial_state =
     \<lparr>zoomInLimitReached = False, zoomOutLimitReached = False,
      displayingWheelZoomInfoMessage = False, zoomLevel = 1\<rparr>"

text \<open>
  \<open>Graph.zoomByType\<close>: each branch is one \<open>setState\<close>; the updaters of IN and OUT read
  the state they are applied to.
\<close>

fun Graph_zoomByType :: "ZoomType \<Rightarrow> GraphState \<Rightarrow> GraphState" where
  "Graph_zoomByType IN st = st\<lparr>zoomLevel := zoomLevel st + 3 / 10\<rparr>"
| "Graph_zoomByType OUT st = st\<lparr>zoomLevel := zoomLevel st - 3 / 10\<rparr>"
| "Graph_zoomByType FIT st = st\<lparr>zoomLevel := 1\<rparr>"

text \<open>
  \<open>Graph.zoomByType\<close> with the rounding written out: the literal \<open>0.3\<close> is rounded, and
  so is the sum and the difference. The literal \<open>1\<close> is a double.
\<close>

fun Graph_zoomByType_rounded :: "(real \<Rightarrow> real) \<Rightarrow> ZoomType \<Rightarrow> GraphState \<Rightarrow> GraphState" where
  "Graph_zoomByType_rounded rnd IN st = st\<lparr>zoomLevel := rnd (zoomLevel st + rnd (3 / 10))\<rparr>"
| "Graph_zoomByType_rounded rnd OUT st = st\<lparr>zoomLevel := rnd (zoomLevel st - rnd (3 / 10))\<rparr>"
| "Graph_zoomByType_rounded rnd FIT st = st\<lparr>zoomLevel := 1\<rparr>"

text \<open>A sequence of zoom button clicks, oldest first.\<close>

definition Graph_zoomAll :: "ZoomType list \<Rightarrow> GraphState \<Rightarrow> GraphState" where
  "Graph_zoomAll zs st = fold Graph_zoomByType zs st"

subsection \<open>The zoom step as the specification words it\<close>

text \<open>
  The specification's zoom step: the scale multiplied by a fixed step factor and clamped
  to the scale bounds. This definition follows the specification, not the source; it is
  what the source is compared with.
\<close>

definition clamp :: "real \<Rightarrow> real \<Rightarrow> real \<Rightarrow> real" where
  "clamp lo hi v = max lo (min hi v)"

definition spec_zoom_step :: "real \<Rightarrow> real \<Rightarrow> real \<Rightarrow> real \<Rightarrow> real" where
  "spec_zoom_step factor lo hi s = clamp lo hi (s * factor)"

section \<open>The 2D drawing surface\<close>

text \<open>
  The calls the source makes on a \<open>CanvasRenderingContext2D\<close>, recorded in the order
  they are made. \<open>Scale\<close> takes numbers: the scale of the visualization is the result of
  a division.
\<close>

text \<open>
  The text \<open>fillText\<close> is given: a string, or the value of the member of
  \<open>Object.prototype\<close> of a given name (a function or an object, not a string), which
  the engine prints in its own way.
\<close>

datatype js_text = Text string | TextOfInherited string

datatype CanvasOp =
    ResetTransform
  | ClearRect real real real real
  | Translate real real
  | Scale number number
  | BeginPath
  | Arc real real real real real
  | SetFillStyle string
  | Fill
  | Stroke
  | SetFont string
  | SetTextAlign string
  | SetTextBaseline string
  | FillText js_text real real real
  | Restore

datatype LogArg = LogText string | LogNumber real

datatype Effect = Draw CanvasOp | ConsoleError string | ConsoleLog LogArg

text \<open>The drawing calls among the effects of a function, in order.\<close>

fun drawn :: "Effect list \<Rightarrow> CanvasOp list" where
  "drawn [] = []"
| "drawn (Draw c # es) = c # drawn es"
| "drawn (_ # es) = drawn es"

text \<open>The diagnostics (\<open>console.error\<close>) among the effects, in order.\<close>

fun diagnostics :: "Effect list \<Rightarrow> string list" where
  "diagnostics [] = []"
| "diagnostics (ConsoleError m # es) = m # diagnostics es"
| "diagnostics (_ # es) = diagnostics es"

text \<open>
  The canvas element: its \<open>width\<close> and \<open>height\<close> attributes are unsigned integers;
  \<open>context2d\<close> tells whether \<open>getContext('2d')\<close> returns a context.
\<close>

record Canvas =
  width :: nat
  height :: nat
  context2d :: bool

text \<open>
  The current transformation of a context, as the Canvas 2D API defines it. The source
  only scales and translates, so the matrix has a scale per axis and an offset.
  \<open>scale\<close> with a non-finite argument is ignored by the API. The source never saves a
  drawing state, so \<open>restore\<close> finds the stack empty and does nothing.
\<close>

record Transform =
  scale_x :: real
  scale_y :: real
  offset_x :: real
  offset_y :: real

definition identity_transform :: Transform where
  "identity_transform = \<lparr>scale_x = 1, scale_y = 1, offset_x = 0, offset_y = 0\<rparr>"

definition apply_transform :: "Transform \<Rightarrow> real \<times> real \<Rightarrow> real \<times> real" where
  "apply_transform T p =
     (offset_x T + scale_x T * fst p, offset_y T + scale_y T * snd p)"

fun run_op :: "CanvasOp \<Rightarrow> Transform \<Rightarrow> Transform" where
  "run_op ResetTransform T = identity_transform"
| "run_op (Translate tx ty) T =
     T\<lparr>offset_x := offset_x T + scale_x T * tx, offset_y := offset_y T + scale_y T * ty\<rparr>"
| "run_op (Scale (Finite sx) (Finite sy)) T =
     T\<lparr>scale_x := scale_x T * sx, scale_y := scale_y T * sy\<rparr>"
| "run_op _ T = T"

text \<open>
  Where the circles land: the centre of every \<open>arc\<close>, in device coordinates, under the
  transformation current when the arc is issued.
\<close>

fun arc_centres :: "Transform \<Rightarrow> CanvasOp list \<Rightarrow> (real \<times> real) list" where
  "arc_centres T [] = []"
| "arc_centres T (Arc cx cy r a0 a1 # ops) = apply_transform T (cx, cy) # arc_centres T ops"
| "arc_centres T (c # ops) = arc_centres (run_op c T) ops"


section \<open>Plain objects\<close>

text \<open>
  Reading a property of a plain object that the object does not own finds the property
  of that name on \<open>Object.prototype\<close>, if there is one: these are the names below. Their
  values are functions, and for \<open>__proto__\<close> the prototype object: none is nullish, a
  string or an array.
\<close>

definition Object_prototype_names :: "string list" where
  "Object_prototype_names =
     [''constructor'', ''__proto__'', ''hasOwnProperty'', ''isPrototypeOf'',
      ''propertyIsEnumerable'', ''toLocaleString'', ''toString'', ''valueOf'',
      ''__defineGetter__'', ''__defineSetter__'', ''__lookupGetter__'',
      ''__lookupSetter__'']"

section \<open>Rendering in the Graph component (Graph.tsx)\<close>

text \<open>
  The properties of the component the modelled methods read. Optional booleans are
  \<open>bool option\<close>: \<open>None\<close> is \<open>undefined\<close>, which is falsy.
\<close>

record BasicNode =
  labels :: "string list"
  properties :: "string \<rightharpoonup> string"

record GraphProps =
  props_nodes :: "BasicNode list"
  props_wheelZoomRequiresModKey :: "bool option"
  wheelZoomInfoMessageEnabled :: "bool option"

definition truthy :: "bool option \<Rightarrow> bool" where
  "truthy b = (b = Some True)"

text \<open>
  The caption \<open>updateGraphCanvas\<close> draws: \<open>NULL\<close> when the first label is missing or
  empty (both falsy), and otherwise \<open>node.properties[label]\<close> for the first label.
  \<open>properties\<close> is a plain object: the value is the node's own property of that name;
  failing that, the member of \<open>Object.prototype\<close> of that name; failing that,
  \<open>undefined\<close>, which \<open>fillText\<close> prints as that word.
\<close>

definition node_caption :: "BasicNode \<Rightarrow> js_text" where
  "node_caption node =
     (case labels node of
        [] \<Rightarrow> Text ''NULL''
      | label # _ \<Rightarrow>
          if label = [] then Text ''NULL''
          else (case properties node label of
                  Some v \<Rightarrow> Text v
                | None \<Rightarrow>
                    if label \<in> set Object_prototype_names then TextOfInherited label
                    else Text ''undefined''))"

definition Graph_drawNode :: "js_text \<Rightarrow> real \<Rightarrow> real \<Rightarrow> real \<Rightarrow> CanvasOp list" where
  "Graph_drawNode label cx cy r =
     [BeginPath, Arc cx cy r 0 (pi * 2), SetFillStyle ''blue'', Fill, Stroke,
      SetFillStyle ''white'', SetFont ''20px Arial'', SetTextAlign ''center'',
      SetTextBaseline ''middle'', FillText label cx cy r]"

text \<open>
  \<open>Graph.updateGraphCanvas\<close>: the canvas is the \<open>current\<close> of a React ref, \<open>None\<close> when
  it is null. The method writes no state; it returns the state with its effects.
\<close>

definition Graph_updateGraphCanvas ::
  "GraphProps \<Rightarrow> Canvas option \<Rightarrow> GraphState \<Rightarrow> GraphState \<times> Effect list" where
  "Graph_updateGraphCanvas props canvasElement st =
     (case canvasElement of
        None \<Rightarrow> (st, [ConsoleError ''null canvas''])
      | Some canvas \<Rightarrow>
          if \<not> context2d canvas then (st, [ConsoleError ''null canvas 2d context''])
          else
            (st,
             [ConsoleLog (LogText ''draw''),
              Draw ResetTransform,
              Draw (ClearRect 0 0 (real (width canvas)) (real (height canvas))),
              Draw (Scale (Finite (zoomLevel st)) (Finite (zoomLevel st))),
              ConsoleLog (LogNumber (zoomLevel st))]
             @ concat (map (\<lambda>(idx, node).
                   map Draw (Graph_drawNode (node_caption node) (real idx * 100) 100 50))
                 (enumerate 0 (props_nodes props)))
             @ [Draw Restore]))"

section \<open>The wheel zoom info message\<close>

text \<open>
  The host of the info message is the Graph component. Its state is paired with the
  calls of \<open>displayZoomWheelInfoMessage\<close> made so far, each with its argument: each call
  is one \<open>setState\<close>.
\<close>

definition Graph_displayZoomWheelInfoMessage ::
  "bool \<Rightarrow> GraphState \<times> bool list \<Rightarrow> GraphState \<times> bool list" where
  "Graph_displayZoomWheelInfoMessage display host =
     ((fst host)\<lparr>displayingWheelZoomInfoMessage := display\<rparr>, snd host @ [display])"

definition Graph_handleDisplayZoomWheelInfoMessage ::
  "GraphProps \<Rightarrow> GraphState \<times> bool list \<Rightarrow> GraphState \<times> bool list" where
  "Graph_handleDisplayZoomWheelInfoMessage props host =
     (if \<not> displayingWheelZoomInfoMessage (fst host)
         \<and> truthy (props_wheelZoomRequiresModKey props)
         \<and> truthy (wheelZoomInfoMessageEnabled props)
      then Graph_displayZoomWheelInfoMessage True host
      else host)"

text \<open>\<open>Graph.render\<close> shows the overlay under this condition.\<close>

definition overlay_shown :: "GraphProps \<Rightarrow> GraphState \<Rightarrow> bool" where
  "overlay_shown props st =
     (truthy (wheelZoomInfoMessageEnabled props) \<and> displayingWheelZoomInfoMessage st)"

text \<open>
  The filter the first \<open>Visualization\<close> gives its zoom behaviour.
  \<open>onDisplayZoomWheelInfoMessage\<close> is an argument of the constructor, a callback with
  no argument and no result: a function on the state \<open>'h\<close> of whoever passed it. The
  filter returns whether the event is let through, and the state after the call of the
  callback, where it makes one. The sources construct no \<open>Visualization\<close>, so they pass
  no callback; it is a parameter.
\<close>

record ZoomInputEvent =
  event_type :: string
  metaKey :: bool
  ctrlKey :: bool
  shiftKey :: bool

definition zoomBehavior_filter ::
  "bool option \<Rightarrow> ('h \<Rightarrow> 'h) \<Rightarrow> ZoomInputEvent \<Rightarrow> 'h \<Rightarrow> bool \<times> 'h" where
  "zoomBehavior_filter wheelZoomRequiresModKey onDisplayZoomWheelInfoMessage e host =
     (if event_type e = ''wheel'' then
        (let modKeySelected = (metaKey e \<or> ctrlKey e \<or> shiftKey e) in
         if truthy wheelZoomRequiresModKey \<and> \<not> modKeySelected
         then (False, onDisplayZoomWheelInfoMessage host)
         else (True, host))
      else (True, host))"

text \<open>
  The zoom behaviour (the d3-zoom library) asks its filter about every event it is
  given, and an event the filter rejects starts no zoom gesture: it changes no scale.
  The answers of the filter to a sequence of events, in order, and the state after the
  calls of the callback.
\<close>

fun filter_all ::
  "bool option \<Rightarrow> ('h \<Rightarrow> 'h) \<Rightarrow> ZoomInputEvent list \<Rightarrow> 'h \<Rightarrow> bool list \<times> 'h" where
  "filter_all wheelZoomRequiresModKey callback [] host = ([], host)"
| "filter_all wheelZoomRequiresModKey callback (e # es) host =
     (let (let_through, host1) = zoomBehavior_filter wheelZoomRequiresModKey callback e host;
          (answers, host2) = filter_all wheelZoomRequiresModKey callback es host1
      in (let_through # answers, host2))"

text \<open>A wheel event with no modifier key.\<close>

definition bare_wheel :: "ZoomInputEvent \<Rightarrow> bool" where
  "bare_wheel e = (event_type e = ''wheel'' \<and> \<not> metaKey e \<and> \<not> ctrlKey e \<and> \<not> shiftKey e)"

section \<open>The Visualization class\<close>

text \<open>
  The graph model is not among the sources; the records hold what the modelled methods
  read of it (\<open>x\<close> and \<open>y\<close> of a node are \<open>pos_x\<close> and \<open>pos_y\<close>) and what the
  specification's data model gives a node and a relationship.
\<close>

record NodeModel =
  node_id :: string
  pos_x :: real
  pos_y :: real
  radius :: real

record RelationshipModel =
  rel_id :: string
  source :: string
  target :: string

record GraphModel =
  nodes :: "NodeModel list"
  relationships :: "RelationshipModel list"

record BBox =
  bbox_x :: real
  bbox_y :: real
  bbox_width :: real
  bbox_height :: real

text \<open>
  Modelled from the spec: \<open>GraphModel.getBoundingBox\<close> is not among the sources. The
  specification gives the bounding box as the minimum and maximum over all node centres
  plus and minus the radius, and the zero-size box at the origin for the empty graph.
  \<open>bbox_x\<close> and \<open>bbox_y\<close> are the corner of least coordinates.
\<close>

definition GraphModel_getBoundingBox :: "GraphModel \<Rightarrow> BBox" where
  "GraphModel_getBoundingBox g =
     (case nodes g of
        [] \<Rightarrow> \<lparr>bbox_x = 0, bbox_y = 0, bbox_width = 0, bbox_height = 0\<rparr>
      | n # ns \<Rightarrow>
          (let minX = fold (\<lambda>m acc. min acc (pos_x m - radius m)) ns (pos_x n - radius n);
               maxX = fold (\<lambda>m acc. max acc (pos_x m + radius m)) ns (pos_x n + radius n);
               minY = fold (\<lambda>m acc. min acc (pos_y m - radius m)) ns (pos_y n - radius n);
               maxY = fold (\<lambda>m acc. max acc (pos_y m + radius m)) ns (pos_y n + radius n)
           in \<lparr>bbox_x = minX, bbox_y = minY,
               bbox_width = maxX - minX, bbox_height = maxY - minY\<rparr>))"


text \<open>
  The fields of the second \<open>Visualization\<close> (the one that tracks \<open>scale\<close> itself).
  \<open>canvas\<close> and \<open>canvasElement\<close> are the same element. The geometry model is not among
  the sources: its state is of any type \<open>'g\<close>. The callbacks are modelled apart, below.
\<close>

record 'g Visualization =
  canvas :: Canvas
  graph :: GraphModel
  geometry :: 'g
  zoomMinScaleExtent :: real
  draw :: bool
  isZoomClick :: bool
  scale :: number
  isFullscreen :: bool
  wheelZoomRequiresModKey :: "bool option"
  initialZoomToFit :: "bool option"

text \<open>
  The constructor: the canvas element, the graph and the options are its arguments.
  \<open>ZOOM_MIN_SCALE\<close> is a constant of a module that is not among the sources, and
  \<open>geometry0\<close> is the state of a new geometry model: both are parameters.
\<close>

definition Visualization_new ::
  "Canvas \<Rightarrow> GraphModel \<Rightarrow> 'g \<Rightarrow> real \<Rightarrow> bool \<Rightarrow> bool option \<Rightarrow> bool option
     \<Rightarrow> 'g Visualization" where
  "Visualization_new canvasElement g geometry0 ZOOM_MIN_SCALE fullscreen requiresModKey
     zoomToFit =
     \<lparr>canvas = canvasElement, graph = g, geometry = geometry0,
      zoomMinScaleExtent = ZOOM_MIN_SCALE, draw = False, isZoomClick = False,
      scale = Finite 1, isFullscreen = fullscreen,
      wheelZoomRequiresModKey = requiresModKey, initialZoomToFit = zoomToFit\<rparr>"

definition Visualization_drawNode :: "NodeModel \<Rightarrow> CanvasOp list" where
  "Visualization_drawNode node =
     [BeginPath, Arc (pos_x node) (pos_y node) 50 0 (pi * 2), SetFillStyle ''blue'', Fill,
      Stroke, SetFillStyle ''white'', SetFont ''20px Arial'', SetTextAlign ''center'',
      SetTextBaseline ''middle'', FillText (Text ''Node'') (pos_x node) (pos_y node) 50]"

text \<open>
  \<open>Visualization.render\<close>. \<open>onTick\<close> is \<open>GraphGeometryModel.onTick\<close>, a parameter: by
  the specification the geometry is derived from the graph, which it only reads.
\<close>

definition render ::
  "(GraphModel \<Rightarrow> 'g \<Rightarrow> 'g) \<Rightarrow> 'g Visualization \<Rightarrow> 'g Visualization \<times> Effect list" where
  "render onTick this =
     (let this1 = this\<lparr>geometry := onTick (graph this) (geometry this)\<rparr>;
          canvasWidth = real (width (canvas this1));
          canvasHeight = real (height (canvas this1))
      in if \<not> context2d (canvas this1) then (this1, [ConsoleError ''null ctx''])
         else
           (this1,
            map Draw
              ([ResetTransform,
                ClearRect 0 0 canvasWidth canvasHeight,
                Translate (canvasWidth / 2) (canvasHeight / 2),
                Scale (scale this1) (scale this1)]
               @ concat (map Visualization_drawNode (nodes (graph this1))))))"

text \<open>\<open>getBoundingBox\<close> is the method of the graph model, a parameter.\<close>

definition getZoomScaleFactorToFitWholeGraph ::
  "(GraphModel \<Rightarrow> BBox) \<Rightarrow> 'g Visualization \<Rightarrow> number" where
  "getZoomScaleFactorToFitWholeGraph getBoundingBox this =
     (let canvasWidth = real (width (canvas this));
          canvasHeight = real (height (canvas this))
      in if canvasWidth = 0 \<or> canvasHeight = 0 then Finite 1
         else
           (let graphBBox = getBoundingBox (graph this);
                graphWidth = bbox_width graphBBox + 120;
                graphHeight = bbox_height graphBBox + 120;
                widthRatio = (if graphWidth > canvasWidth
                              then jsdiv canvasWidth graphWidth else Finite 1);
                heightRatio = (if graphHeight > canvasHeight
                               then jsdiv canvasHeight graphHeight else Finite 1)
            in Math_min widthRatio heightRatio))"

definition zoomToFitViewport ::
  "(GraphModel \<Rightarrow> 'g \<Rightarrow> 'g) \<Rightarrow> (GraphModel \<Rightarrow> BBox) \<Rightarrow> 'g Visualization
     \<Rightarrow> 'g Visualization \<times> Effect list" where
  "zoomToFitViewport onTick getBoundingBox this =
     render onTick (this\<lparr>scale := getZoomScaleFactorToFitWholeGraph getBoundingBox this\<rparr>)"

text \<open>The body of this method is commented out in the source: it does nothing.\<close>

definition adjustZoomMinScaleExtentToFitGraph ::
  "real \<Rightarrow> 'g Visualization \<Rightarrow> 'g Visualization" where
  "adjustZoomMinScaleExtentToFitGraph padding_factor this = this"

definition Visualization_zoomByType ::
  "(GraphModel \<Rightarrow> 'g \<Rightarrow> 'g) \<Rightarrow> (GraphModel \<Rightarrow> BBox) \<Rightarrow> ZoomType \<Rightarrow> 'g Visualization
     \<Rightarrow> 'g Visualization \<times> Effect list" where
  "Visualization_zoomByType onTick getBoundingBox zoomType this =
     (let this1 = this\<lparr>draw := True, isZoomClick := True\<rparr>
      in case zoomType of
           IN \<Rightarrow> (this1, [])
         | OUT \<Rightarrow> (this1, [])
         | FIT \<Rightarrow>
             (let (this2, effects) = zoomToFitViewport onTick getBoundingBox this1
              in (adjustZoomMinScaleExtentToFitGraph 1 this2, effects)))"

text \<open>
  The same three methods with the rounding written out: the sums with the padding and
  the quotients are rounded. A canvas dimension is an integer, and so a double.
\<close>

definition getZoomScaleFactorToFitWholeGraph_rounded ::
  "(real \<Rightarrow> real) \<Rightarrow> (GraphModel \<Rightarrow> BBox) \<Rightarrow> 'g Visualization \<Rightarrow> number" where
  "getZoomScaleFactorToFitWholeGraph_rounded rnd getBoundingBox this =
     (let canvasWidth = real (width (canvas this));
          canvasHeight = real (height (canvas this))
      in if canvasWidth = 0 \<or> canvasHeight = 0 then Finite 1
         else
           (let graphBBox = getBoundingBox (graph this);
                graphWidth = rnd (bbox_width graphBBox + 120);
                graphHeight = rnd (bbox_height graphBBox + 120);
                widthRatio = (if graphWidth > canvasWidth
                              then jsdiv_rounded rnd canvasWidth graphWidth else Finite 1);
                heightRatio = (if graphHeight > canvasHeight
                               then jsdiv_rounded rnd canvasHeight graphHeight else Finite 1)
            in Math_min widthRatio heightRatio))"

definition zoomToFitViewport_rounded ::
  "(real \<Rightarrow> real) \<Rightarrow> (GraphModel \<Rightarrow> 'g \<Rightarrow> 'g) \<Rightarrow> (GraphModel \<Rightarrow> BBox) \<Rightarrow> 'g Visualization
     \<Rightarrow> 'g Visualization \<times> Effect list" where
  "zoomToFitViewport_rounded rnd onTick getBoundingBox this =
     render onTick
       (this\<lparr>scale := getZoomScaleFactorToFitWholeGraph_rounded rnd getBoundingBox this\<rparr>)"

definition Visualization_zoomByType_rounded ::
  "(real \<Rightarrow> real) \<Rightarrow> (GraphModel \<Rightarrow> 'g \<Rightarrow> 'g) \<Rightarrow> (GraphModel \<Rightarrow> BBox) \<Rightarrow> ZoomType
     \<Rightarrow> 'g Visualization \<Rightarrow> 'g Visualization \<times> Effect list" where
  "Visualization_zoomByType_rounded rnd onTick getBoundingBox zoomType this =
     (let this1 = this\<lparr>draw := True, isZoomClick := True\<rparr>
      in case zoomType of
           IN \<Rightarrow> (this1, [])
         | OUT \<Rightarrow> (this1, [])
         | FIT \<Rightarrow>
             (let (this2, effects) = zoomToFitViewport_rounded rnd onTick getBoundingBox this1
              in (adjustZoomMinScaleExtentToFitGraph 1 this2, effects)))"

definition Visualization_resize ::
  "bool \<Rightarrow> bool \<Rightarrow> 'g Visualization \<Rightarrow> 'g Visualization \<times> Effect list" where
  "Visualization_resize fullscreen requiresModKey this =
     (this\<lparr>isFullscreen := fullscreen, wheelZoomRequiresModKey := Some requiresModKey\<rparr>, [])"

text \<open>
  Modelled from the spec: the force simulation is not among the sources. The
  constructor hands it \<open>render\<close> as its callback, and by the specification each tick
  invokes the render callback. The host calls \<open>resize\<close> and \<open>zoomByType\<close>.
\<close>

datatype VisEvent = Tick | Resize bool bool | ZoomBy ZoomType

fun handle ::
  "(GraphModel \<Rightarrow> 'g \<Rightarrow> 'g) \<Rightarrow> (GraphModel \<Rightarrow> BBox) \<Rightarrow> VisEvent \<Rightarrow> 'g Visualization
     \<Rightarrow> 'g Visualization \<times> Effect list" where
  "handle onTick getBoundingBox Tick this = render onTick this"
| "handle onTick getBoundingBox (Resize fullscreen requiresModKey) this =
     Visualization_resize fullscreen requiresModKey this"
| "handle onTick getBoundingBox (ZoomBy zoomType) this =
     Visualization_zoomByType onTick getBoundingBox zoomType this"

text \<open>
  Modelled from the spec: the geometry model is not among the sources. By the
  specification the geometry frame is recomputed every tick from the graph alone and
  holds, for each node, its centre and its radius.
\<close>

definition GraphGeometryModel_onTick ::
  "GraphModel \<Rightarrow> (real \<times> real \<times> real) list \<Rightarrow> (real \<times> real \<times> real) list" where
  "GraphGeometryModel_onTick g frame = map (\<lambda>n. (pos_x n, pos_y n, radius n)) (nodes g)"

section \<open>The callback registry\<close>

text \<open>
  \<open>callbacks\<close> is a plain object (\<open>{}\<close>) indexed by the event name: a name it does
  not own is looked up on \<open>Object.prototype\<close>, whose values are neither nullish nor
  arrays.
\<close>

datatype 'cb property_value = CallbackArray "'cb list" | Inherited

definition get_property :: "(string \<rightharpoonup> 'cb list) \<Rightarrow> string \<Rightarrow> 'cb property_value option" where
  "get_property callbacks event =
     (case callbacks event of
        Some cs \<Rightarrow> Some (CallbackArray cs)
      | None \<Rightarrow> if event \<in> set Object_prototype_names then Some Inherited else None)"

datatype js_error = TypeError

text \<open>
  \<open>on\<close>: a nullish property is first set to the empty array; then \<open>push\<close> is called on
  the property. An inherited value has no \<open>push\<close>, and calling it throws.
\<close>

definition on ::
  "string \<Rightarrow> 'cb \<Rightarrow> (string \<rightharpoonup> 'cb list) \<Rightarrow> js_error + (string \<rightharpoonup> 'cb list)" where
  "on event callback callbacks =
     (case get_property callbacks event of
        None \<Rightarrow> Inr (callbacks(event \<mapsto> [callback]))
      | Some (CallbackArray cs) \<Rightarrow> Inr (callbacks(event \<mapsto> cs @ [callback]))
      | Some Inherited \<Rightarrow> Inl TypeError)"

text \<open>
  \<open>trigger\<close>: the calls it makes, in order, each a callback with the arguments it is
  applied to. An inherited value has no \<open>forEach\<close>, and calling it throws. A callback
  is taken to return.
\<close>

definition trigger ::
  "string \<Rightarrow> 'a \<Rightarrow> (string \<rightharpoonup> 'cb list) \<Rightarrow> js_error + ('cb \<times> 'a) list" where
  "trigger event args callbacks =
     (case get_property callbacks event of
        None \<Rightarrow> Inr []
      | Some (CallbackArray callbacksForEvent) \<Rightarrow>
          Inr (map (\<lambda>callback. (callback, args)) callbacksForEvent)
      | Some Inherited \<Rightarrow> Inl TypeError)"

text \<open>The callbacks an event name has of its own, in the order of registration.\<close>

definition registered :: "(string \<rightharpoonup> 'cb list) \<Rightarrow> string \<Rightarrow> 'cb list" where
  "registered callbacks event = (case callbacks event of None \<Rightarrow> [] | Some cs \<Rightarrow> cs)"

text \<open>Registrations in the order they are made; the first that throws ends them.\<close>

fun on_all ::
  "(string \<times> 'cb) list \<Rightarrow> (string \<rightharpoonup> 'cb list) \<Rightarrow> js_error + (string \<rightharpoonup> 'cb list)" where
  "on_all [] callbacks = Inr callbacks"
| "on_all ((event, callback) # rs) callbacks =
     (case on event callback callbacks of
        Inl e \<Rightarrow> Inl e
      | Inr callbacks' \<Rightarrow> on_all rs callbacks')"

section \<open>Sample inputs\<close>

text \<open>
  Concrete inputs the theorems are evaluated at: a node at the origin, a node far from
  it, and a new visualization over a canvas of a given size.
\<close>

definition origin_node :: NodeModel where
  "origin_node = \<lparr>node_id = ''a'', pos_x = 0, pos_y = 0, radius = 50\<rparr>"

definition far_node :: NodeModel where
  "far_node = \<lparr>node_id = ''b'', pos_x = 1000, pos_y = 0, radius = 50\<rparr>"

definition sample_visualization ::
  "nat \<Rightarrow> nat \<Rightarrow> bool \<Rightarrow> NodeModel list \<Rightarrow> RelationshipModel list
     \<Rightarrow> (real \<times> real \<times> real) list Visualization" where
  "sample_visualization w h ctx ns rs =
     Visualization_new \<lparr>width = w, height = h, context2d = ctx\<rparr>
       \<lparr>nodes = ns, relationships = rs\<rparr> [] (1 / 10) False None None"


text \<open>
  The binary64 roundings of the numbers the examples below round: of the literal
  \<open>0.3\<close>, of the sum of 0.40000000000000013 and that double, and of the quotient of 200
  by 265. Every other number is left as it is.
\<close>

definition sample_binary64 :: "real \<Rightarrow> real" where
  "sample_binary64 x =
     (if x = 3 / 10 then 5404319552844595 / 18014398509481984
      else if x = 1801439850948199 / 4503599627370496
                  + 5404319552844595 / 18014398509481984
           then 788129934789837 / 1125899906842624
      else if x = 200 / 265 then 3398943114996601 / 4503599627370496
      else x)"

definition sample_relationship :: RelationshipModel where
  "sample_relationship = \<lparr>rel_id = ''r'', source = ''a'', target = ''b''\<rparr>"

definition sample_props :: GraphProps where
  "sample_props =
     \<lparr>props_nodes = [\<lparr>labels = [''Person''], properties = [''Person'' \<mapsto> ''Ada'']\<rparr>],
      props_wheelZoomRequiresModKey = Some True,
      wheelZoomInfoMessageEnabled = Some True\<rparr>"

definition sample_wheel :: ZoomInputEvent where
  "sample_wheel = \<lparr>event_type = ''wheel'', metaKey = False, ctrlKey = False, shiftKey = False\<rparr>"

section \<open>The zoom buttons\<close>

text \<open>
  C1. The claim has IN and OUT multiply the scale by a fixed factor and clamp it. The
  source adds and subtracts the constant 0.3 instead: wherever the stepped value lies
  within the scale bounds \<open>lo\<close> and \<open>hi\<close>, \<open>Graph.zoomByType\<close> sets the zoom level to
  the scale plus 0.3 (IN) and minus 0.3 (OUT), which there is the stepped value clamped
  to the bounds. \<open>Visualization.zoomByType\<close> leaves the scale as it is for IN and OUT.
\<close>

theorem zoomByType_step_is_additive:
  "(lo \<le> zoomLevel st + 3 / 10 \<and> zoomLevel st + 3 / 10 \<le> hi \<longrightarrow>
      zoomLevel (Graph_zoomByType IN st) = clamp lo hi (zoomLevel st + 3 / 10))
   \<and> (lo \<le> zoomLevel st - 3 / 10 \<and> zoomLevel st - 3 / 10 \<le> hi \<longrightarrow>
      zoomLevel (Graph_zoomByType OUT st) = clamp lo hi (zoomLevel st - 3 / 10))
   \<and> scale (fst (Visualization_zoomByType onTick getBoundingBox IN this)) = scale this
   \<and> scale (fst (Visualization_zoomByType onTick getBoundingBox OUT this)) = scale this"
  by (simp add: clamp_def Visualization_zoomByType_def)

text \<open>From the initial zoom level 1, with the bounds 0.1 and 2: 1.3 and 0.7.\<close>

theorem zoomByType_step_is_additive_witness:
  "(1 / 10 \<le> zoomLevel Graph_initial_state + 3 / 10
      \<and> zoomLevel Graph_initial_state + 3 / 10 \<le> 2)
   \<and> zoomLevel (Graph_zoomByType IN Graph_initial_state) = 13 / 10
   \<and> (1 / 10 \<le> zoomLevel Graph_initial_state - 3 / 10
      \<and> zoomLevel Graph_initial_state - 3 / 10 \<le> 2)
   \<and> zoomLevel (Graph_zoomByType OUT Graph_initial_state) = 7 / 10"
  using zoomByType_step_is_additive [of "1 / 10" Graph_initial_state 2]
  by (simp add: Graph_initial_state_def clamp_def)

text \<open>
  The claim of C1 fails: from the zoom level 2, IN gives 2.3 and OUT gives 1.7, a
  step of 0.3 where the factors 1.3 and 0.7 give 2.6 and 1.4. And whatever the factor
  and the bounds, the source is not the clamped product on the whole range: IN from the
  upper bound leaves the range, and so does OUT from the lower bound.
\<close>

theorem zoomByType_step_not_multiplicative:
  "zoomLevel (Graph_zoomByType IN (Graph_initial_state\<lparr>zoomLevel := 2\<rparr>)) = 23 / 10
   \<and> zoomLevel (Graph_zoomByType OUT (Graph_initial_state\<lparr>zoomLevel := 2\<rparr>)) = 17 / 10
   \<and> \<not> (\<exists>factor lo hi. lo \<le> hi \<and>
          (\<forall>s. lo \<le> s \<and> s \<le> hi \<longrightarrow>
             zoomLevel (Graph_zoomByType IN (Graph_initial_state\<lparr>zoomLevel := s\<rparr>))
               = spec_zoom_step factor lo hi s))
   \<and> \<not> (\<exists>factor lo hi. lo \<le> hi \<and>
          (\<forall>s. lo \<le> s \<and> s \<le> hi \<longrightarrow>
             zoomLevel (Graph_zoomByType OUT (Graph_initial_state\<lparr>zoomLevel := s\<rparr>))
               = spec_zoom_step factor lo hi s))"
proof -
  have zoom_in: "\<not> (\<exists>factor lo hi. lo \<le> hi \<and>
          (\<forall>s. lo \<le> s \<and> s \<le> hi \<longrightarrow>
             zoomLevel (Graph_zoomByType IN (Graph_initial_state\<lparr>zoomLevel := s\<rparr>))
               = spec_zoom_step factor lo hi s))"
  proof
    assume "\<exists>factor lo hi. lo \<le> hi \<and>
          (\<forall>s. lo \<le> s \<and> s \<le> hi \<longrightarrow>
             zoomLevel (Graph_zoomByType IN (Graph_initial_state\<lparr>zoomLevel := s\<rparr>))
               = spec_zoom_step factor lo hi s)"
    then obtain factor lo hi :: real where le: "lo \<le> hi"
      and every: "\<forall>s. lo \<le> s \<and> s \<le> hi \<longrightarrow>
             zoomLevel (Graph_zoomByType IN (Graph_initial_state\<lparr>zoomLevel := s\<rparr>))
               = spec_zoom_step factor lo hi s"
      by blast
    from every le have "hi + 3 / 10 = spec_zoom_step factor lo hi hi" by simp
    moreover have "spec_zoom_step factor lo hi hi \<le> hi"
      using le by (simp add: spec_zoom_step_def clamp_def)
    ultimately show False by simp
  qed
  have zoom_out: "\<not> (\<exists>factor lo hi. lo \<le> hi \<and>
          (\<forall>s. lo \<le> s \<and> s \<le> hi \<longrightarrow>
             zoomLevel (Graph_zoomByType OUT (Graph_initial_state\<lparr>zoomLevel := s\<rparr>))
               = spec_zoom_step factor lo hi s))"
  proof
    assume "\<exists>factor lo hi. lo \<le> hi \<and>
          (\<forall>s. lo \<le> s \<and> s \<le> hi \<longrightarrow>
             zoomLevel (Graph_zoomByType OUT (Graph_initial_state\<lparr>zoomLevel := s\<rparr>))
               = spec_zoom_step factor lo hi s)"
    then obtain factor lo hi :: real where le: "lo \<le> hi"
      and every: "\<forall>s. lo \<le> s \<and> s \<le> hi \<longrightarrow>
             zoomLevel (Graph_zoomByType OUT (Graph_initial_state\<lparr>zoomLevel := s\<rparr>))
               = spec_zoom_step factor lo hi s"
      by blast
    from every le have "lo - 3 / 10 = spec_zoom_step factor lo hi lo" by simp
    moreover have "lo \<le> spec_zoom_step factor lo hi lo"
      by (simp add: spec_zoom_step_def clamp_def)
    ultimately show False by simp
  qed
  show ?thesis using zoom_in zoom_out by (simp add: Graph_initial_state_def)
qed

text \<open>
  C2. The claim keeps the scale within its bounds, never zero or negative, after any
  sequence of zoom operations. The source does not: from the initial zoom level 1, four
  clicks on the zoom-out button leave the zoom level at -0.2.
\<close>

theorem zoom_out_four_times_negative:
  "zoomLevel (Graph_zoomAll [OUT, OUT, OUT, OUT] Graph_initial_state) = - (1 / 5)
   \<and> zoomLevel (Graph_zoomAll [OUT, OUT, OUT, OUT] Graph_initial_state) < 0"
  by (simp add: Graph_zoomAll_def Graph_initial_state_def)

lemma Graph_zoomByType_rounded_exact:
  "Graph_zoomByType_rounded (\<lambda>x. x) zoomType st = Graph_zoomByType zoomType st"
  by (cases zoomType) simp_all

lemma round_trip_error:
  fixes s c u :: real
  assumes u: "0 \<le> u"
    and r1: "\<bar>s1 - (s + c)\<bar> \<le> u * \<bar>s + c\<bar>"
    and r2: "\<bar>s2 - (s1 - c)\<bar> \<le> u * \<bar>s1 - c\<bar>"
  shows "\<bar>s2 - s\<bar> \<le> u * (1 + u) * \<bar>s + c\<bar> + u * \<bar>s\<bar>"
proof -
  have t: "\<bar>s1 - c\<bar> \<le> \<bar>s\<bar> + u * \<bar>s + c\<bar>"
    using r1 by linarith
  have "u * \<bar>s1 - c\<bar> \<le> u * (\<bar>s\<bar> + u * \<bar>s + c\<bar>)"
    using t u by (rule mult_left_mono)
  with r2 have e2: "\<bar>s2 - (s1 - c)\<bar> \<le> u * \<bar>s\<bar> + u * u * \<bar>s + c\<bar>"
    by (simp add: algebra_simps)
  have "\<bar>s2 - s\<bar> \<le> \<bar>s2 - (s1 - c)\<bar> + \<bar>s1 - (s + c)\<bar>" by linarith
  with e2 r1 have "\<bar>s2 - s\<bar> \<le> u * \<bar>s\<bar> + u * u * \<bar>s + c\<bar> + u * \<bar>s + c\<bar>" by linarith
  then show ?thesis by (simp add: algebra_simps)
qed

text \<open>
  C7. From a zoom level strictly within the bounds \<open>lo\<close> and \<open>hi\<close>, with the zoom-in
  step staying within them, IN followed by OUT returns the zoom level to within a small
  tolerance of where it started: when the sum and the difference are rounded within
  the relative error \<open>u\<close>, the result is within \<open>u (2 + u)\<close> times the larger bound
  in magnitude. For doubles \<open>u\<close> is \<open>2\<^sup>-\<^sup>5\<^sup>3\<close>. The result need not be the zoom
  level itself.
\<close>

theorem zoom_in_then_out_within_tolerance:
  assumes u: "0 \<le> u"
    and lower: "lo < zoomLevel st" and upper: "zoomLevel st < hi"
    and step_lo: "lo \<le> zoomLevel st + rnd (3 / 10)"
    and step_hi: "zoomLevel st + rnd (3 / 10) \<le> hi"
    and sum: "rounds_within u rnd (zoomLevel st + rnd (3 / 10))"
    and diff: "rounds_within u rnd (rnd (zoomLevel st + rnd (3 / 10)) - rnd (3 / 10))"
  shows "\<bar>zoomLevel (Graph_zoomByType_rounded rnd OUT (Graph_zoomByType_rounded rnd IN st))
           - zoomLevel st\<bar>
         \<le> u * (2 + u) * max \<bar>lo\<bar> \<bar>hi\<bar>"
proof -
  let ?s = "zoomLevel st" and ?c = "rnd (3 / 10)"
  let ?s1 = "rnd (?s + ?c)"
  let ?s2 = "rnd (?s1 - ?c)"
  let ?M = "max \<bar>lo\<bar> \<bar>hi\<bar>"
  have res: "zoomLevel (Graph_zoomByType_rounded rnd OUT (Graph_zoomByType_rounded rnd IN st)) = ?s2"
    by simp
  have err: "\<bar>?s2 - ?s\<bar> \<le> u * (1 + u) * \<bar>?s + ?c\<bar> + u * \<bar>?s\<bar>"
    using sum diff by (intro round_trip_error[OF u]) (simp_all add: rounds_within_def)
  have s: "\<bar>?s\<bar> \<le> ?M" using lower upper by (simp add: max_def abs_if split: if_splits)
  have sc: "\<bar>?s + ?c\<bar> \<le> ?M" using step_lo step_hi by (simp add: max_def abs_if split: if_splits)
  have "u * (1 + u) * \<bar>?s + ?c\<bar> \<le> u * (1 + u) * ?M"
    using sc u by (intro mult_left_mono) simp_all
  moreover have "u * \<bar>?s\<bar> \<le> u * ?M" using s u by (rule mult_left_mono)
  ultimately have "\<bar>?s2 - ?s\<bar> \<le> u * (1 + u) * ?M + u * ?M" using err by linarith
  then show ?thesis unfolding res by (simp add: algebra_simps)
qed


text \<open>
  In doubles, with the bounds 0.1 and 2: from 0.40000000000000013, which ten clicks on
  zoom-out and eight on zoom-in reach, IN gives 0.7000000000000002 and OUT gives
  0.4000000000000002; it is not the zoom level before, and it is within the tolerance.
\<close>

theorem zoom_in_then_out_within_tolerance_witness:
  "0 \<le> (1 / 2 ^ 53 :: real)
   \<and> 1 / 10 < zoomLevel (Graph_initial_state\<lparr>zoomLevel := 1801439850948199 / 4503599627370496\<rparr>)
   \<and> zoomLevel (Graph_initial_state\<lparr>zoomLevel := 1801439850948199 / 4503599627370496\<rparr>) < 2
   \<and> 1 / 10 \<le> zoomLevel (Graph_initial_state\<lparr>zoomLevel := 1801439850948199 / 4503599627370496\<rparr>)
               + sample_binary64 (3 / 10)
   \<and> zoomLevel (Graph_initial_state\<lparr>zoomLevel := 1801439850948199 / 4503599627370496\<rparr>)
        + sample_binary64 (3 / 10) \<le> 2
   \<and> rounds_within (1 / 2 ^ 53) sample_binary64
        (zoomLevel (Graph_initial_state\<lparr>zoomLevel := 1801439850948199 / 4503599627370496\<rparr>)
           + sample_binary64 (3 / 10))
   \<and> rounds_within (1 / 2 ^ 53) sample_binary64
        (sample_binary64
           (zoomLevel (Graph_initial_state\<lparr>zoomLevel := 1801439850948199 / 4503599627370496\<rparr>)
              + sample_binary64 (3 / 10))
         - sample_binary64 (3 / 10))
   \<and> zoomLevel (Graph_zoomByType_rounded sample_binary64 OUT
        (Graph_zoomByType_rounded sample_binary64 IN
           (Graph_initial_state\<lparr>zoomLevel := 1801439850948199 / 4503599627370496\<rparr>)))
      = 7205759403792797 / 18014398509481984
   \<and> \<bar>7205759403792797 / 18014398509481984 - 1801439850948199 / 4503599627370496\<bar>
      \<le> (1 / 2 ^ 53) * (2 + 1 / 2 ^ 53) * max \<bar>1 / 10\<bar> \<bar>2 :: real\<bar>
   \<and> 7205759403792797 / 18014398509481984 \<noteq> (1801439850948199 / 4503599627370496 :: real)"
proof -
  let ?st = "Graph_initial_state\<lparr>zoomLevel := 1801439850948199 / 4503599627370496\<rparr>"
  let ?u = "1 / 2 ^ 53 :: real"
  have u: "0 \<le> ?u" by simp
  have lower: "1 / 10 < zoomLevel ?st" and upper: "zoomLevel ?st < 2"
    by (simp_all add: Graph_initial_state_def)
  have step_lo: "1 / 10 \<le> zoomLevel ?st + sample_binary64 (3 / 10)"
    and step_hi: "zoomLevel ?st + sample_binary64 (3 / 10) \<le> 2"
    by (simp_all add: Graph_initial_state_def sample_binary64_def)
  have sum: "rounds_within ?u sample_binary64 (zoomLevel ?st + sample_binary64 (3 / 10))"
    by (simp add: rounds_within_def Graph_initial_state_def sample_binary64_def)
  have diff: "rounds_within ?u sample_binary64
      (sample_binary64 (zoomLevel ?st + sample_binary64 (3 / 10)) - sample_binary64 (3 / 10))"
    by (simp add: rounds_within_def Graph_initial_state_def sample_binary64_def)
  have val: "zoomLevel (Graph_zoomByType_rounded sample_binary64 OUT
        (Graph_zoomByType_rounded sample_binary64 IN ?st))
      = 7205759403792797 / 18014398509481984"
    by (simp add: Graph_initial_state_def sample_binary64_def)
  from zoom_in_then_out_within_tolerance [OF u lower upper step_lo step_hi sum diff] val
  have tol: "\<bar>7205759403792797 / 18014398509481984 - 1801439850948199 / 4503599627370496\<bar>
      \<le> ?u * (2 + ?u) * max \<bar>1 / 10\<bar> \<bar>2 :: real\<bar>"
    by simp
  have ne: "7205759403792797 / 18014398509481984 \<noteq> (1801439850948199 / 4503599627370496 :: real)"
    by simp
  show ?thesis using u lower upper step_lo step_hi sum diff val tol ne by blast
qed

text \<open>
  The claim of C7 has the clamp value returned when a step reaches a bound. The source
  never returns it. In exact arithmetic: from 1.9, where the zoom-in step passes 2, IN
  followed by OUT gives 1.9 again (in doubles 1.8999999999999997, not 2 either); and for
  no bounds and no zoom level strictly within them whose zoom-in step passes the upper
  bound is the result that bound.
\<close>

theorem zoom_in_then_out_never_clamp_value:
  "zoomLevel (Graph_zoomByType OUT (Graph_zoomByType IN
       (Graph_initial_state\<lparr>zoomLevel := 19 / 10\<rparr>))) = 19 / 10
   \<and> \<not> (\<exists>lo hi s. lo < s \<and> s < hi \<and> hi < s + 3 / 10 \<and>
          zoomLevel (Graph_zoomByType OUT (Graph_zoomByType IN
            (Graph_initial_state\<lparr>zoomLevel := s\<rparr>))) = hi)"
  by (auto simp add: Graph_initial_state_def)

section \<open>Zoom to fit\<close>

lemma drawn_map_Draw: "drawn (map Draw ops) = ops"
  by (induction ops) simp_all


lemma arc_centres_drawNodes:
  "arc_centres T (concat (map Visualization_drawNode ns))
     = map (\<lambda>n. apply_transform T (pos_x n, pos_y n)) ns"
  by (induction ns) (simp_all add: Visualization_drawNode_def)

text \<open>
  The scale factor is always finite: a division is only evaluated with a divisor that
  exceeds a canvas dimension, and no canvas dimension is negative.
\<close>

lemma fit_cases:
  "getZoomScaleFactorToFitWholeGraph bb this =
     Finite (if width (canvas this) = 0 \<or> height (canvas this) = 0 then 1
             else min (if bbox_width (bb (graph this)) + 120 > real (width (canvas this))
                       then real (width (canvas this)) / (bbox_width (bb (graph this)) + 120)
                       else 1)
                      (if bbox_height (bb (graph this)) + 120 > real (height (canvas this))
                       then real (height (canvas this)) / (bbox_height (bb (graph this)) + 120)
                       else 1))"
proof -
  have w: "bbox_width (bb (graph this)) + 120 > real (width (canvas this))
            \<Longrightarrow> bbox_width (bb (graph this)) + 120 \<noteq> 0" by auto
  have h: "bbox_height (bb (graph this)) + 120 > real (height (canvas this))
            \<Longrightarrow> bbox_height (bb (graph this)) + 120 \<noteq> 0" by auto
  show ?thesis
    using w h by (simp add: getZoomScaleFactorToFitWholeGraph_def Let_def jsdiv_def)
qed

lemma ratio_bounds:
  fixes c g :: real
  assumes "0 < c"
  shows "0 < (if g > c then c / g else 1)" "(if g > c then c / g else 1) \<le> 1"
    "(if g > c then c / g else 1) * g \<le> c"
  using assms by (auto simp add: field_simps)

lemma fit_scale_bounds:
  "\<exists>k. getZoomScaleFactorToFitWholeGraph bb this = Finite k \<and> 0 < k \<and> k \<le> 1"
proof (cases "width (canvas this) = 0 \<or> height (canvas this) = 0")
  case True
  then show ?thesis by (simp add: fit_cases)
next
  case False
  let ?cw = "real (width (canvas this))" and ?ch = "real (height (canvas this))"
  let ?gw = "bbox_width (bb (graph this)) + 120"
  let ?gh = "bbox_height (bb (graph this)) + 120"
  let ?k = "min (if ?gw > ?cw then ?cw / ?gw else 1) (if ?gh > ?ch then ?ch / ?gh else 1)"
  from False have cw: "0 < ?cw" and ch: "0 < ?ch" by simp_all
  have eq: "getZoomScaleFactorToFitWholeGraph bb this = Finite ?k"
    using False by (simp add: fit_cases)
  have pos: "0 < ?k"
    using ratio_bounds(1)[OF cw] ratio_bounds(1)[OF ch] by (simp add: min_def)
  have le: "?k \<le> 1" using ratio_bounds(2)[OF cw, of ?gw] by (simp add: min_def)
  show ?thesis using eq pos le by blast
qed

lemma zoomByType_FIT_scale:
  "scale (fst (Visualization_zoomByType onTick bb FIT this))
     = getZoomScaleFactorToFitWholeGraph bb this"
  by (simp add: Visualization_zoomByType_def zoomToFitViewport_def render_def Let_def
      adjustZoomMinScaleExtentToFitGraph_def getZoomScaleFactorToFitWholeGraph_def split_def)

lemma zoomByType_FIT_drawn:
  assumes "context2d (canvas this)"
  shows "drawn (snd (Visualization_zoomByType onTick bb FIT this)) =
     [ResetTransform,
      ClearRect 0 0 (real (width (canvas this))) (real (height (canvas this))),
      Translate (real (width (canvas this)) / 2) (real (height (canvas this)) / 2),
      Scale (getZoomScaleFactorToFitWholeGraph bb this)
            (getZoomScaleFactorToFitWholeGraph bb this)]
     @ concat (map Visualization_drawNode (nodes (graph this)))"
  using assms
  by (simp add: Visualization_zoomByType_def zoomToFitViewport_def render_def Let_def
      adjustZoomMinScaleExtentToFitGraph_def getZoomScaleFactorToFitWholeGraph_def split_def
      drawn_map_Draw)



text \<open>
  C9. For every graph (whatever its bounding box) and every canvas of positive width
  and height, the scale factor to fit the whole graph is a finite number in the
  interval (0, 1]; it is 1 whenever the bounding box with its padding of 120 is within
  the canvas in both dimensions; and it is the scale \<open>zoomByType(FIT)\<close> sets, which so
  never enlarges beyond the identity scale.
\<close>

theorem fit_scale_factor_in_unit_interval:
  assumes "0 < width (canvas this)" "0 < height (canvas this)"
  shows "\<exists>k. getZoomScaleFactorToFitWholeGraph getBoundingBox this = Finite k
     \<and> 0 < k \<and> k \<le> 1
     \<and> (bbox_width (getBoundingBox (graph this)) + 120 \<le> real (width (canvas this))
        \<and> bbox_height (getBoundingBox (graph this)) + 120 \<le> real (height (canvas this))
        \<longrightarrow> k = 1)
     \<and> scale (fst (Visualization_zoomByType onTick getBoundingBox FIT this)) = Finite k"
proof -
  from fit_scale_bounds [of getBoundingBox this]
  obtain k where k: "getZoomScaleFactorToFitWholeGraph getBoundingBox this = Finite k"
    and bounds: "0 < k" "k \<le> 1"
    by blast
  have one: "bbox_width (getBoundingBox (graph this)) + 120 \<le> real (width (canvas this))
        \<and> bbox_height (getBoundingBox (graph this)) + 120 \<le> real (height (canvas this))
        \<longrightarrow> k = 1"
    using k assms by (auto simp add: fit_cases)
  have "scale (fst (Visualization_zoomByType onTick getBoundingBox FIT this)) = Finite k"
    using k by (simp add: zoomByType_FIT_scale)
  with k bounds one show ?thesis by blast
qed

text \<open>
  A node of radius 50 at the origin: on a canvas of 100 by 300 the padded box, 220 wide,
  does not fit and the factor is 100 / 220; on a canvas of 300 by 300 it fits and the
  factor is 1.
\<close>

theorem fit_scale_factor_in_unit_interval_witness:
  "0 < width (canvas (sample_visualization 100 300 True [origin_node] []))
   \<and> 0 < height (canvas (sample_visualization 100 300 True [origin_node] []))
   \<and> getZoomScaleFactorToFitWholeGraph GraphModel_getBoundingBox
        (sample_visualization 100 300 True [origin_node] []) = Finite (5 / 11)
   \<and> 0 < (5 / 11 :: real) \<and> (5 / 11 :: real) \<le> 1
   \<and> 0 < width (canvas (sample_visualization 300 300 True [origin_node] []))
   \<and> 0 < height (canvas (sample_visualization 300 300 True [origin_node] []))
   \<and> bbox_width (GraphModel_getBoundingBox
          (graph (sample_visualization 300 300 True [origin_node] []))) + 120
        \<le> real (width (canvas (sample_visualization 300 300 True [origin_node] [])))
   \<and> bbox_height (GraphModel_getBoundingBox
          (graph (sample_visualization 300 300 True [origin_node] []))) + 120
        \<le> real (height (canvas (sample_visualization 300 300 True [origin_node] [])))
   \<and> getZoomScaleFactorToFitWholeGraph GraphModel_getBoundingBox
        (sample_visualization 300 300 True [origin_node] []) = Finite 1"
proof -
  let ?v = "sample_visualization 100 300 True [origin_node] []"
  let ?u = "sample_visualization 300 300 True [origin_node] []"
  have w: "0 < width (canvas ?v)" and h: "0 < height (canvas ?v)"
    by (simp_all add: sample_visualization_def Visualization_new_def)
  have val: "getZoomScaleFactorToFitWholeGraph GraphModel_getBoundingBox ?v = Finite (5 / 11)"
    by (simp add: sample_visualization_def Visualization_new_def origin_node_def
        getZoomScaleFactorToFitWholeGraph_def Let_def GraphModel_getBoundingBox_def jsdiv_def)
  from fit_scale_factor_in_unit_interval
         [OF w h, of GraphModel_getBoundingBox GraphGeometryModel_onTick] val
  have small: "0 < (5 / 11 :: real) \<and> (5 / 11 :: real) \<le> 1" by auto
  have w': "0 < width (canvas ?u)" and h': "0 < height (canvas ?u)"
    by (simp_all add: sample_visualization_def Visualization_new_def)
  have fw: "bbox_width (GraphModel_getBoundingBox (graph ?u)) + 120 \<le> real (width (canvas ?u))"
    and fh: "bbox_height (GraphModel_getBoundingBox (graph ?u)) + 120
               \<le> real (height (canvas ?u))"
    by (simp_all add: sample_visualization_def Visualization_new_def origin_node_def
        GraphModel_getBoundingBox_def)
  from fit_scale_factor_in_unit_interval
         [OF w' h', of GraphModel_getBoundingBox GraphGeometryModel_onTick] fw fh
  have one: "getZoomScaleFactorToFitWholeGraph GraphModel_getBoundingBox ?u = Finite 1"
    by auto
  show ?thesis using w h val small w' h' fw fh one by blast
qed

text \<open>
  With the identity for the rounding, the rounded definitions are the exact ones.
\<close>

lemma jsdiv_rounded_exact: "jsdiv_rounded (\<lambda>x. x) = jsdiv"
  by (simp add: fun_eq_iff jsdiv_rounded_def jsdiv_def)

lemma fit_rounded_exact:
  "getZoomScaleFactorToFitWholeGraph_rounded (\<lambda>x. x) bb this
     = getZoomScaleFactorToFitWholeGraph bb this"
  unfolding getZoomScaleFactorToFitWholeGraph_rounded_def
    getZoomScaleFactorToFitWholeGraph_def jsdiv_rounded_exact
  by (rule refl)

lemma zoomToFitViewport_rounded_exact:
  "zoomToFitViewport_rounded (\<lambda>x. x) onTick bb = zoomToFitViewport onTick bb"
  by (simp add: fun_eq_iff zoomToFitViewport_rounded_def zoomToFitViewport_def
      fit_rounded_exact)

lemma zoomByType_rounded_exact:
  "Visualization_zoomByType_rounded (\<lambda>x. x) onTick bb zoomType this
     = Visualization_zoomByType onTick bb zoomType this"
  unfolding Visualization_zoomByType_rounded_def Visualization_zoomByType_def
    zoomToFitViewport_rounded_exact
  by (rule refl)

lemma fit_rounded_cases:
  assumes "0 < width (canvas this)" "0 < height (canvas this)"
  shows "getZoomScaleFactorToFitWholeGraph_rounded rnd bb this =
     Finite (min (if rnd (bbox_width (bb (graph this)) + 120) > real (width (canvas this))
                  then rnd (real (width (canvas this))
                            / rnd (bbox_width (bb (graph this)) + 120))
                  else 1)
                 (if rnd (bbox_height (bb (graph this)) + 120) > real (height (canvas this))
                  then rnd (real (height (canvas this))
                            / rnd (bbox_height (bb (graph this)) + 120))
                  else 1))"
proof -
  have w: "rnd (bbox_width (bb (graph this)) + 120) > real (width (canvas this))
            \<Longrightarrow> rnd (bbox_width (bb (graph this)) + 120) \<noteq> 0" by auto
  have h: "rnd (bbox_height (bb (graph this)) + 120) > real (height (canvas this))
            \<Longrightarrow> rnd (bbox_height (bb (graph this)) + 120) \<noteq> 0" by auto
  show ?thesis
    using w h assms
    by (simp add: getZoomScaleFactorToFitWholeGraph_rounded_def Let_def jsdiv_rounded_def)
qed



lemma rounded_ratio_bounds:
  fixes c g u :: real
  assumes c: "0 < c" and u: "0 \<le> u" "u < 1"
    and r: "g > c \<Longrightarrow> rounds_within u rnd (c / g)"
  shows "0 < (if g > c then rnd (c / g) else 1)"
    and "(if g > c then rnd (c / g) else 1) * g \<le> c * (1 + u)"
proof -
  show "0 < (if g > c then rnd (c / g) else 1)"
  proof (cases "g > c")
    case True
    define q where "q = c / g"
    have q: "0 < q" using True c by (simp add: q_def)
    have "\<bar>rnd q - q\<bar> \<le> u * \<bar>q\<bar>" using r[OF True] by (simp add: rounds_within_def q_def)
    then have near: "\<bar>rnd q - q\<bar> \<le> u * q" using q by simp
    have "0 < (1 - u) * q" using q u by (intro mult_pos_pos) simp_all
    then have "0 < q - u * q" by (simp add: algebra_simps)
    with near have "0 < rnd q" by linarith
    then show ?thesis using True by (simp add: q_def)
  next
    case False
    then show ?thesis by simp
  qed
  show "(if g > c then rnd (c / g) else 1) * g \<le> c * (1 + u)"
  proof (cases "g > c")
    case True
    define q where "q = c / g"
    have g: "0 < g" using True c by simp
    have q: "0 < q" using True c by (simp add: q_def)
    have qg: "q * g = c" using g by (simp add: q_def)
    have "\<bar>rnd q - q\<bar> \<le> u * \<bar>q\<bar>" using r[OF True] by (simp add: rounds_within_def q_def)
    then have "rnd q \<le> q + u * q" using q by simp
    then have "rnd q * g \<le> (q + u * q) * g" using g by (simp add: mult_right_mono)
    also have "(q + u * q) * g = (q * g) * (1 + u)" by (simp add: algebra_simps)
    finally have "rnd q * g \<le> c * (1 + u)" by (simp add: qg)
    then show ?thesis using True by (simp add: q_def)
  next
    case False
    have "c \<le> c * (1 + u)" using c u by (simp add: algebra_simps)
    with False show ?thesis by simp
  qed
qed



text \<open>
  The bounds of the scale factor hold with the rounding too, when the quotients are
  rounded within a relative error below 1 and the rounding takes no number that is at
  most 1 beyond 1: rounding to nearest is monotone, and 1 is a double.
\<close>

lemma fit_rounded_scale_bounds:
  assumes dims: "0 < width (canvas this)" "0 < height (canvas this)"
    and u: "0 \<le> u" "u < 1"
    and divw: "rnd (bbox_width (bb (graph this)) + 120) > real (width (canvas this))
      \<Longrightarrow> rounds_within u rnd (real (width (canvas this))
                                / rnd (bbox_width (bb (graph this)) + 120))"
    and divh: "rnd (bbox_height (bb (graph this)) + 120) > real (height (canvas this))
      \<Longrightarrow> rounds_within u rnd (real (height (canvas this))
                                / rnd (bbox_height (bb (graph this)) + 120))"
    and le1: "\<And>x. x \<le> 1 \<Longrightarrow> rnd x \<le> 1"
  shows "\<exists>k. getZoomScaleFactorToFitWholeGraph_rounded rnd bb this = Finite k
           \<and> 0 < k \<and> k \<le> 1"
proof -
  let ?cw = "real (width (canvas this))" and ?ch = "real (height (canvas this))"
  let ?gw = "rnd (bbox_width (bb (graph this)) + 120)"
  let ?gh = "rnd (bbox_height (bb (graph this)) + 120)"
  let ?rw = "if ?gw > ?cw then rnd (?cw / ?gw) else 1"
  let ?rh = "if ?gh > ?ch then rnd (?ch / ?gh) else 1"
  have cw: "0 < ?cw" and ch: "0 < ?ch" using dims by simp_all
  have eq: "getZoomScaleFactorToFitWholeGraph_rounded rnd bb this = Finite (min ?rw ?rh)"
    using dims by (rule fit_rounded_cases)
  have pw: "0 < ?rw" using rounded_ratio_bounds(1)[OF cw u divw] .
  have ph: "0 < ?rh" using rounded_ratio_bounds(1)[OF ch u divh] .
  have "?rw \<le> 1"
  proof (cases "?gw > ?cw")
    case True
    then have "?cw / ?gw \<le> 1" using cw by simp
    from le1[OF this] True show ?thesis by simp
  next
    case False
    then show ?thesis by simp
  qed
  then have le: "min ?rw ?rh \<le> 1" by (simp add: min_def)
  have pos: "0 < min ?rw ?rh" using pw ph by (simp add: min_def)
  show ?thesis using eq pos le by blast
qed





text \<open>
  C4. When a canvas dimension is 0, \<open>zoomByType(FIT)\<close> sets the scale to 1, whatever
  the graph. When the bounding box is the zero-size box, which by the specification is
  the box of the empty graph, and the canvas is at least 120 in both dimensions, it sets
  the scale to 1. In every case the scale it sets is a finite positive number: no
  division by zero is evaluated. The zoom-to-fit of the Graph component sets the zoom
  level to 1.
\<close>

theorem fit_degenerate_cases:
  "(width (canvas this) = 0 \<or> height (canvas this) = 0 \<longrightarrow>
      scale (fst (Visualization_zoomByType onTick getBoundingBox FIT this)) = Finite 1)
   \<and> (bbox_width (getBoundingBox (graph this)) = 0
        \<and> bbox_height (getBoundingBox (graph this)) = 0
        \<and> 120 \<le> width (canvas this) \<and> 120 \<le> height (canvas this)
      \<longrightarrow> scale (fst (Visualization_zoomByType onTick getBoundingBox FIT this)) = Finite 1)
   \<and> (nodes (graph this) = [] \<longrightarrow>
        bbox_width (GraphModel_getBoundingBox (graph this)) = 0
        \<and> bbox_height (GraphModel_getBoundingBox (graph this)) = 0)
   \<and> (\<exists>k. scale (fst (Visualization_zoomByType onTick getBoundingBox FIT this)) = Finite k
          \<and> 0 < k)
   \<and> zoomLevel (Graph_zoomByType FIT st) = 1"
proof -
  have zero: "width (canvas this) = 0 \<or> height (canvas this) = 0 \<longrightarrow>
      scale (fst (Visualization_zoomByType onTick getBoundingBox FIT this)) = Finite 1"
    by (simp add: zoomByType_FIT_scale fit_cases)
  have empty: "bbox_width (getBoundingBox (graph this)) = 0
        \<and> bbox_height (getBoundingBox (graph this)) = 0
        \<and> 120 \<le> width (canvas this) \<and> 120 \<le> height (canvas this)
      \<longrightarrow> scale (fst (Visualization_zoomByType onTick getBoundingBox FIT this)) = Finite 1"
    by (simp add: zoomByType_FIT_scale fit_cases)
  have box: "nodes (graph this) = [] \<longrightarrow>
        bbox_width (GraphModel_getBoundingBox (graph this)) = 0
        \<and> bbox_height (GraphModel_getBoundingBox (graph this)) = 0"
    by (simp add: GraphModel_getBoundingBox_def)
  have finite: "\<exists>k. scale (fst (Visualization_zoomByType onTick getBoundingBox FIT this))
                     = Finite k \<and> 0 < k"
    using fit_scale_bounds [of getBoundingBox this] by (auto simp add: zoomByType_FIT_scale)
  show ?thesis using zero empty box finite by simp
qed

text \<open>A canvas of 0 by 0, and the empty graph on a canvas of 200 by 200.\<close>

theorem fit_degenerate_cases_witness:
  "(width (canvas (sample_visualization 0 0 True [] [])) = 0
      \<or> height (canvas (sample_visualization 0 0 True [] [])) = 0)
   \<and> scale (fst (Visualization_zoomByType GraphGeometryModel_onTick GraphModel_getBoundingBox FIT
        (sample_visualization 0 0 True [] []))) = Finite 1
   \<and> nodes (graph (sample_visualization 200 200 True [] [])) = []
   \<and> bbox_width (GraphModel_getBoundingBox
        (graph (sample_visualization 200 200 True [] []))) = 0
   \<and> bbox_height (GraphModel_getBoundingBox
        (graph (sample_visualization 200 200 True [] []))) = 0
   \<and> 120 \<le> width (canvas (sample_visualization 200 200 True [] []))
   \<and> 120 \<le> height (canvas (sample_visualization 200 200 True [] []))
   \<and> scale (fst (Visualization_zoomByType GraphGeometryModel_onTick GraphModel_getBoundingBox FIT
        (sample_visualization 200 200 True [] []))) = Finite 1"
proof -
  let ?z = "sample_visualization 0 0 True [] []"
  let ?e = "sample_visualization 200 200 True [] []"
  have hz: "width (canvas ?z) = 0 \<or> height (canvas ?z) = 0"
    by (simp add: sample_visualization_def Visualization_new_def)
  have he: "nodes (graph ?e) = []"
    and hc: "120 \<le> width (canvas ?e)" "120 \<le> height (canvas ?e)"
    by (simp_all add: sample_visualization_def Visualization_new_def)
  from fit_degenerate_cases [of ?z GraphGeometryModel_onTick GraphModel_getBoundingBox] hz
  have z: "scale (fst (Visualization_zoomByType GraphGeometryModel_onTick
             GraphModel_getBoundingBox FIT ?z)) = Finite 1" by blast
  from fit_degenerate_cases [of ?e GraphGeometryModel_onTick GraphModel_getBoundingBox] he
  have box: "bbox_width (GraphModel_getBoundingBox (graph ?e)) = 0"
    "bbox_height (GraphModel_getBoundingBox (graph ?e)) = 0" by blast+
  from fit_degenerate_cases [of ?e GraphGeometryModel_onTick GraphModel_getBoundingBox] box hc
  have e: "scale (fst (Visualization_zoomByType GraphGeometryModel_onTick
             GraphModel_getBoundingBox FIT ?e)) = Finite 1" by blast
  show ?thesis using hz he hc box z e by blast
qed

text \<open>
  The claim of C4 has the empty graph always fitted at scale 1. On a canvas smaller than
  the padding it is not: for the empty graph on a canvas of 100 by 100, with the scale
  at 1 before, \<open>zoomByType(FIT)\<close> sets the scale to 100 / 120.
\<close>

theorem fit_empty_graph_small_canvas:
  "nodes (graph (sample_visualization 100 100 True [] [])) = []
   \<and> scale (sample_visualization 100 100 True [] []) = Finite 1
   \<and> scale (fst (Visualization_zoomByType GraphGeometryModel_onTick GraphModel_getBoundingBox FIT
        (sample_visualization 100 100 True [] []))) = Finite (5 / 6)
   \<and> Finite (5 / 6) \<noteq> Finite 1"
  by (simp add: sample_visualization_def Visualization_new_def
      Visualization_zoomByType_def zoomToFitViewport_def render_def Let_def
      adjustZoomMinScaleExtentToFitGraph_def getZoomScaleFactorToFitWholeGraph_def
      GraphModel_getBoundingBox_def jsdiv_def)

section \<open>Rendering\<close>

lemma drawn_append: "drawn (xs @ ys) = drawn xs @ drawn ys"
  by (induction xs rule: drawn.induct) simp_all

lemma drawn_concat_map_Draw:
  "drawn (concat (map (\<lambda>x. map Draw (f x)) xs)) = concat (map f xs)"
  by (induction xs) (simp_all add: drawn_append drawn_map_Draw)

lemma render_drawn:
  assumes "context2d (canvas this)"
  shows "drawn (snd (render onTick this)) =
     [ResetTransform,
      ClearRect 0 0 (real (width (canvas this))) (real (height (canvas this))),
      Translate (real (width (canvas this)) / 2) (real (height (canvas this)) / 2),
      Scale (scale this) (scale this)]
     @ concat (map Visualization_drawNode (nodes (graph this)))"
  using assms by (simp add: render_def Let_def drawn_map_Draw)

lemma arc_centres_Graph_nodes:
  "arc_centres T (concat (map (\<lambda>(idx, node).
       Graph_drawNode (node_caption node) (real idx * 100) 100 50) (enumerate n ns)) @ [Restore])
   = map (\<lambda>(idx, node). apply_transform T (real idx * 100, 100)) (enumerate n ns)"
  by (induction ns arbitrary: n) (simp_all add: Graph_drawNode_def)

lemma updateGraphCanvas_drawn:
  assumes "context2d c"
  shows "drawn (snd (Graph_updateGraphCanvas props (Some c) st)) =
     [ResetTransform, ClearRect 0 0 (real (width c)) (real (height c)),
      Scale (Finite (zoomLevel st)) (Finite (zoomLevel st))]
     @ concat (map (\<lambda>(idx, node).
          Graph_drawNode (node_caption node) (real idx * 100) 100 50)
          (enumerate 0 (props_nodes props)))
     @ [Restore]"
proof -
  have "(\<lambda>(idx, node). map Draw (Graph_drawNode (node_caption node) (real idx * 100) 100 50))
      = (\<lambda>x. map Draw
           ((\<lambda>(idx, node). Graph_drawNode (node_caption node) (real idx * 100) 100 50) x))"
    by (simp add: fun_eq_iff)
  then show ?thesis
    using assms
    by (simp add: Graph_updateGraphCanvas_def drawn_append drawn_concat_map_Draw)
qed

text \<open>
  The caption of a node whose first label is a name of \<open>Object.prototype\<close> that the
  node's properties do not own is the inherited value, not a string of the node.
\<close>

lemma node_caption_inherited:
  "node_caption \<lparr>labels = [''constructor''], properties = Map.empty\<rparr>
     = TextOfInherited ''constructor''"
  by (simp add: node_caption_def Object_prototype_names_def)

text \<open>
  The scale of the visualization is 1 when it is constructed, and every event leaves it
  a finite positive number: a render always has a finite scale to apply.
\<close>

lemma render_scale: "scale (fst (render onTick this)) = scale this"
  by (simp add: render_def Let_def)

lemma handle_keeps_scale_finite:
  assumes "\<exists>k. scale this = Finite k \<and> 0 < k"
  shows "\<exists>k. scale (fst (handle onTick getBoundingBox ev this)) = Finite k \<and> 0 < k"
proof (cases ev)
  case Tick
  then show ?thesis using assms by (simp add: render_scale)
next
  case (Resize fullscreen requiresModKey)
  then show ?thesis using assms by (simp add: Visualization_resize_def)
next
  case (ZoomBy zoomType)
  show ?thesis
  proof (cases zoomType)
    case IN
    then show ?thesis using ZoomBy assms by (simp add: Visualization_zoomByType_def)
  next
    case OUT
    then show ?thesis using ZoomBy assms by (simp add: Visualization_zoomByType_def)
  next
    case FIT
    from fit_scale_bounds [of getBoundingBox this]
    show ?thesis using ZoomBy FIT by (auto simp add: zoomByType_FIT_scale)
  qed
qed

text \<open>
  C5. On every render with a 2D context and a finite scale \<open>k\<close>, \<open>Visualization.render\<close>
  resets the transformation, clears the whole canvas and then draws the nodes, in the
  order of the graph, after translating to the canvas centre and scaling: the circle of
  a node at \<open>p\<close> is painted at the canvas centre plus \<open>k\<close> times \<open>p\<close>, whatever the
  transformation was before. What it draws does not depend on the relationships of the
  graph: no relationship geometry is drawn. \<open>Graph.updateGraphCanvas\<close> resets, clears,
  scales by the zoom level without translating, and draws node \<open>idx\<close> at
  \<open>(100 * idx, 100)\<close>, painted at the zoom level times that point.
\<close>

theorem render_paints_nodes_under_view_transform:
  assumes "context2d (canvas this)" "scale this = Finite k"
  shows "drawn (snd (render onTick this)) =
       [ResetTransform,
        ClearRect 0 0 (real (width (canvas this))) (real (height (canvas this))),
        Translate (real (width (canvas this)) / 2) (real (height (canvas this)) / 2),
        Scale (Finite k) (Finite k)]
       @ concat (map Visualization_drawNode (nodes (graph this)))
   \<and> arc_centres T0 (drawn (snd (render onTick this))) =
       map (\<lambda>n. (real (width (canvas this)) / 2 + k * pos_x n,
                  real (height (canvas this)) / 2 + k * pos_y n)) (nodes (graph this))
   \<and> snd (render onTick (this\<lparr>graph := (graph this)\<lparr>relationships := rs\<rparr>\<rparr>))
       = snd (render onTick this)
   \<and> (context2d c \<longrightarrow>
        drawn (snd (Graph_updateGraphCanvas props (Some c) st)) =
          [ResetTransform, ClearRect 0 0 (real (width c)) (real (height c)),
           Scale (Finite (zoomLevel st)) (Finite (zoomLevel st))]
          @ concat (map (\<lambda>(idx, node).
               Graph_drawNode (node_caption node) (real idx * 100) 100 50)
               (enumerate 0 (props_nodes props)))
          @ [Restore]
        \<and> arc_centres T0 (drawn (snd (Graph_updateGraphCanvas props (Some c) st))) =
          map (\<lambda>(idx, node). (zoomLevel st * (real idx * 100), zoomLevel st * 100))
            (enumerate 0 (props_nodes props)))"
proof -
  have ops: "drawn (snd (render onTick this)) =
       [ResetTransform,
        ClearRect 0 0 (real (width (canvas this))) (real (height (canvas this))),
        Translate (real (width (canvas this)) / 2) (real (height (canvas this)) / 2),
        Scale (Finite k) (Finite k)]
       @ concat (map Visualization_drawNode (nodes (graph this)))"
    using render_drawn[OF assms(1), of onTick] assms(2) by simp
  have centres: "arc_centres T0 (drawn (snd (render onTick this))) =
       map (\<lambda>n. (real (width (canvas this)) / 2 + k * pos_x n,
                  real (height (canvas this)) / 2 + k * pos_y n)) (nodes (graph this))"
    unfolding ops
    by (simp add: arc_centres_drawNodes identity_transform_def apply_transform_def)
  have rels: "snd (render onTick (this\<lparr>graph := (graph this)\<lparr>relationships := rs\<rparr>\<rparr>))
       = snd (render onTick this)"
    by (simp add: render_def Let_def)
  have host: "context2d c \<Longrightarrow>
        arc_centres T0 (drawn (snd (Graph_updateGraphCanvas props (Some c) st))) =
          map (\<lambda>(idx, node). (zoomLevel st * (real idx * 100), zoomLevel st * 100))
            (enumerate 0 (props_nodes props))"
    by (simp add: updateGraphCanvas_drawn arc_centres_Graph_nodes identity_transform_def
        apply_transform_def)
  show ?thesis using ops centres rels host updateGraphCanvas_drawn[of c props st] by blast
qed

text \<open>
  Two nodes, at (0, 0) and (1000, 0), on a canvas of 200 by 200 at scale 1: the circles
  are painted at (100, 100) and (1100, 100). The Graph component with one node at zoom
  level 2: the circle drawn at (0, 100) is painted at (0, 200).
\<close>

theorem render_paints_nodes_under_view_transform_witness:
  "context2d (canvas (sample_visualization 200 200 True [origin_node, far_node] []))
   \<and> scale (sample_visualization 200 200 True [origin_node, far_node] []) = Finite 1
   \<and> arc_centres identity_transform
       (drawn (snd (render GraphGeometryModel_onTick
          (sample_visualization 200 200 True [origin_node, far_node] []))))
      = [(100, 100), (1100, 100)]
   \<and> context2d \<lparr>width = 200, height = 200, context2d = True\<rparr>
   \<and> arc_centres identity_transform
       (drawn (snd (Graph_updateGraphCanvas sample_props
          (Some \<lparr>width = 200, height = 200, context2d = True\<rparr>)
          (Graph_initial_state\<lparr>zoomLevel := 2\<rparr>))))
      = [(0, 200)]"
proof -
  let ?v = "sample_visualization 200 200 True [origin_node, far_node] []"
  let ?c = "\<lparr>width = 200, height = 200, context2d = True\<rparr>"
  let ?st = "Graph_initial_state\<lparr>zoomLevel := 2\<rparr>"
  have c: "context2d (canvas ?v)" and s: "scale ?v = Finite 1"
    by (simp_all add: sample_visualization_def Visualization_new_def)
  have c': "context2d ?c" by simp
  note inst = render_paints_nodes_under_view_transform
         [OF c s, of GraphGeometryModel_onTick identity_transform _ ?c sample_props ?st]
  from inst
  have "arc_centres identity_transform (drawn (snd (render GraphGeometryModel_onTick ?v)))
     = map (\<lambda>n. (real (width (canvas ?v)) / 2 + 1 * pos_x n,
                  real (height (canvas ?v)) / 2 + 1 * pos_y n)) (nodes (graph ?v))"
    by blast
  then have vis: "arc_centres identity_transform
       (drawn (snd (render GraphGeometryModel_onTick ?v))) = [(100, 100), (1100, 100)]"
    by (simp add: sample_visualization_def Visualization_new_def origin_node_def far_node_def)
  from inst c'
  have "arc_centres identity_transform
       (drawn (snd (Graph_updateGraphCanvas sample_props (Some ?c) ?st)))
     = map (\<lambda>(idx, node). (zoomLevel ?st * (real idx * 100), zoomLevel ?st * 100))
            (enumerate 0 (props_nodes sample_props))"
    by blast
  then have host: "arc_centres identity_transform
       (drawn (snd (Graph_updateGraphCanvas sample_props (Some ?c) ?st))) = [(0, 200)]"
    by (simp add: sample_props_def Graph_initial_state_def)
  show ?thesis using c s vis c' host by blast
qed

text \<open>
  The claim of C5 has the relationships drawn before the nodes, and every point mapped
  to the viewport centre plus the scale times the point. For a graph of two nodes and a
  relationship between them, \<open>Visualization.render\<close> draws the two nodes and nothing
  else. And \<open>Graph.updateGraphCanvas\<close>, on a canvas of 200 by 200 at zoom level 1,
  paints its first node, drawn at (0, 100), at (0, 100), not at (100, 200).
\<close>

theorem render_draws_no_relationship:
  "relationships (graph (sample_visualization 200 200 True [origin_node, far_node]
       [sample_relationship])) = [sample_relationship]
   \<and> drawn (snd (render GraphGeometryModel_onTick
        (sample_visualization 200 200 True [origin_node, far_node] [sample_relationship])))
      = [ResetTransform, ClearRect 0 0 200 200, Translate 100 100, Scale (Finite 1) (Finite 1)]
        @ Visualization_drawNode origin_node @ Visualization_drawNode far_node
   \<and> arc_centres identity_transform (drawn (snd (Graph_updateGraphCanvas sample_props
        (Some \<lparr>width = 200, height = 200, context2d = True\<rparr>) Graph_initial_state)))
      = [(0, 100)]
   \<and> (0, 100) \<noteq> (200 / 2 + 1 * 0 :: real, 200 / 2 + 1 * 100 :: real)"
  by (simp add: sample_visualization_def Visualization_new_def render_def Let_def
      Graph_updateGraphCanvas_def sample_props_def Graph_initial_state_def Graph_drawNode_def
      identity_transform_def apply_transform_def drawn_append drawn_map_Draw)

text \<open>
  C8. When \<open>getContext('2d')\<close> returns no context, \<open>Visualization.render\<close> reports the
  diagnostic \<open>null ctx\<close> and draws nothing; the graph and the scale are as before, and so
  is every other field but the geometry, which \<open>onTick\<close> has recomputed before the
  context is looked at. Nothing is scheduled: the next tick calls \<open>render\<close> again, and
  with a context it paints; \<open>resize\<close> does not paint. \<open>Graph.updateGraphCanvas\<close>
  reports a diagnostic and leaves the state as it is, both without a canvas and without
  a context.
\<close>

theorem render_without_context_only_reports:
  assumes "\<not> context2d (canvas this)"
  shows "snd (render onTick this) = [ConsoleError ''null ctx'']
   \<and> diagnostics (snd (render onTick this)) = [''null ctx'']
   \<and> drawn (snd (render onTick this)) = []
   \<and> fst (render onTick this) = this\<lparr>geometry := onTick (graph this) (geometry this)\<rparr>
   \<and> graph (fst (render onTick this)) = graph this
   \<and> scale (fst (render onTick this)) = scale this
   \<and> handle onTick getBoundingBox Tick this = render onTick this
   \<and> drawn (snd (handle onTick getBoundingBox Tick
        ((fst (render onTick this))\<lparr>canvas := (canvas this)\<lparr>context2d := True\<rparr>\<rparr>))) \<noteq> []
   \<and> snd (handle onTick getBoundingBox (Resize fullscreen requiresModKey) this) = []
   \<and> Graph_updateGraphCanvas props None st = (st, [ConsoleError ''null canvas''])
   \<and> (\<forall>c. \<not> context2d c \<longrightarrow>
        Graph_updateGraphCanvas props (Some c) st
          = (st, [ConsoleError ''null canvas 2d context'']))"
  using assms
  by (simp add: render_def Let_def Visualization_resize_def Graph_updateGraphCanvas_def)

theorem render_without_context_only_reports_witness:
  "\<not> context2d (canvas (sample_visualization 200 200 False [origin_node] []))
   \<and> render GraphGeometryModel_onTick (sample_visualization 200 200 False [origin_node] [])
      = ((sample_visualization 200 200 False [origin_node] [])\<lparr>geometry := [(0, 0, 50)]\<rparr>,
         [ConsoleError ''null ctx''])
   \<and> \<not> context2d \<lparr>width = 200, height = 200, context2d = False\<rparr>
   \<and> Graph_updateGraphCanvas sample_props
        (Some \<lparr>width = 200, height = 200, context2d = False\<rparr>) Graph_initial_state
      = (Graph_initial_state, [ConsoleError ''null canvas 2d context''])"
proof -
  let ?v = "sample_visualization 200 200 False [origin_node] []"
  let ?c = "\<lparr>width = 200, height = 200, context2d = False\<rparr>"
  have h: "\<not> context2d (canvas ?v)"
    by (simp add: sample_visualization_def Visualization_new_def)
  have h': "\<not> context2d ?c" by simp
  have g: "GraphGeometryModel_onTick (graph ?v) (geometry ?v) = [(0, 0, 50)]"
    by (simp add: sample_visualization_def Visualization_new_def GraphGeometryModel_onTick_def
        origin_node_def)
  note inst = render_without_context_only_reports
         [OF h, of GraphGeometryModel_onTick GraphModel_getBoundingBox False False
            sample_props Graph_initial_state]
  from inst g
  have vis: "render GraphGeometryModel_onTick ?v = (?v\<lparr>geometry := [(0, 0, 50)]\<rparr>,
         [ConsoleError ''null ctx''])"
    by (simp add: prod_eq_iff)
  from inst h'
  have host: "Graph_updateGraphCanvas sample_props (Some ?c) Graph_initial_state
      = (Graph_initial_state, [ConsoleError ''null canvas 2d context''])"
    by blast
  show ?thesis using h vis h' host by blast
qed

text \<open>
  The claim of C8 has the geometry unchanged by a render without a context, and the
  render retried on the next resize. A new visualization of one node, whose geometry
  frame is still empty, has the frame of that node after such a render; and a resize
  draws nothing, even with a context.
\<close>

theorem render_without_context_recomputes_geometry:
  "\<not> context2d (canvas (sample_visualization 200 200 False [origin_node] []))
   \<and> geometry (sample_visualization 200 200 False [origin_node] []) = []
   \<and> geometry (fst (render GraphGeometryModel_onTick
        (sample_visualization 200 200 False [origin_node] []))) = [(0, 0, 50)]
   \<and> snd (handle GraphGeometryModel_onTick GraphModel_getBoundingBox (Resize False False)
        (sample_visualization 200 200 True [origin_node] [])) = []"
  by (simp add: sample_visualization_def Visualization_new_def render_def Let_def
      GraphGeometryModel_onTick_def origin_node_def Visualization_resize_def)

section \<open>Wheel zoom gating\<close>

lemma handleDisplay_idempotent:
  "Graph_handleDisplayZoomWheelInfoMessage props
     (Graph_handleDisplayZoomWheelInfoMessage props host)
     = Graph_handleDisplayZoomWheelInfoMessage props host"
  by (simp add: Graph_handleDisplayZoomWheelInfoMessage_def Graph_displayZoomWheelInfoMessage_def)

lemma handleDisplay_repeated:
  "(Graph_handleDisplayZoomWheelInfoMessage props ^^ Suc n) host
     = Graph_handleDisplayZoomWheelInfoMessage props host"
  by (induction n) (simp_all add: handleDisplay_idempotent)

lemma handleDisplay_zoomLevel_step:
  "zoomLevel (fst (Graph_handleDisplayZoomWheelInfoMessage props host)) = zoomLevel (fst host)"
  by (simp add: Graph_handleDisplayZoomWheelInfoMessage_def
      Graph_displayZoomWheelInfoMessage_def)

lemma handleDisplay_zoomLevel:
  "zoomLevel (fst ((Graph_handleDisplayZoomWheelInfoMessage props ^^ n) host))
     = zoomLevel (fst host)"
  by (induction n) (simp_all add: handleDisplay_zoomLevel_step)

lemma filter_bare_wheel:
  "truthy req \<Longrightarrow> bare_wheel e \<Longrightarrow>
     zoomBehavior_filter req callback e host = (False, callback host)"
  by (simp add: zoomBehavior_filter_def bare_wheel_def)

lemma filter_all_bare_wheel:
  "truthy req \<Longrightarrow> list_all bare_wheel es \<Longrightarrow>
     filter_all req callback es host
       = (replicate (length es) False, (callback ^^ length es) host)"
proof (induction es arbitrary: host)
  case Nil
  show ?case by simp
next
  case (Cons e es)
  then have e: "bare_wheel e" and es: "list_all bare_wheel es" by simp_all
  show ?case
    using Cons.IH[OF Cons.prems(1) es, of "callback host"]
    by (simp add: filter_bare_wheel[OF Cons.prems(1) e] funpow_swap1)
qed

text \<open>
  C6. With the policy that requires a modifier key, the filter rejects every wheel event
  without one, so none of them starts a zoom, and calls the callback once for each of
  them. The handler of the Graph component, called any number of times, does what its
  first call does: that call calls \<open>displayZoomWheelInfoMessage\<close> once, when the
  message is not displayed and the component has the policy and the message enabled,
  and then the overlay is shown; no later call calls it again; and no call changes
  the zoom level.
\<close>

theorem bare_wheel_events_suppressed:
  assumes "truthy requiresModKey" "list_all bare_wheel es"
  shows "filter_all requiresModKey callback es host
       = (replicate (length es) False, (callback ^^ length es) host)
   \<and> (Graph_handleDisplayZoomWheelInfoMessage props ^^ Suc n) (st, calls)
       = Graph_handleDisplayZoomWheelInfoMessage props (st, calls)
   \<and> snd (Graph_handleDisplayZoomWheelInfoMessage props (st, calls))
       = (if \<not> displayingWheelZoomInfoMessage st
             \<and> truthy (props_wheelZoomRequiresModKey props)
             \<and> truthy (wheelZoomInfoMessageEnabled props)
          then calls @ [True] else calls)
   \<and> (\<not> displayingWheelZoomInfoMessage st
        \<and> truthy (props_wheelZoomRequiresModKey props)
        \<and> truthy (wheelZoomInfoMessageEnabled props)
      \<longrightarrow> overlay_shown props
            (fst ((Graph_handleDisplayZoomWheelInfoMessage props ^^ Suc n) (st, calls))))
   \<and> zoomLevel (fst ((Graph_handleDisplayZoomWheelInfoMessage props ^^ n) (st, calls)))
       = zoomLevel st"
proof -
  have answers: "filter_all requiresModKey callback es host
       = (replicate (length es) False, (callback ^^ length es) host)"
    using assms by (rule filter_all_bare_wheel)
  have once: "snd (Graph_handleDisplayZoomWheelInfoMessage props (st, calls))
       = (if \<not> displayingWheelZoomInfoMessage st
             \<and> truthy (props_wheelZoomRequiresModKey props)
             \<and> truthy (wheelZoomInfoMessageEnabled props)
          then calls @ [True] else calls)"
    by (simp add: Graph_handleDisplayZoomWheelInfoMessage_def
        Graph_displayZoomWheelInfoMessage_def)
  have shown: "\<not> displayingWheelZoomInfoMessage st
        \<and> truthy (props_wheelZoomRequiresModKey props)
        \<and> truthy (wheelZoomInfoMessageEnabled props)
      \<longrightarrow> overlay_shown props
            (fst ((Graph_handleDisplayZoomWheelInfoMessage props ^^ Suc n) (st, calls)))"
    unfolding handleDisplay_repeated
    by (simp add: overlay_shown_def Graph_handleDisplayZoomWheelInfoMessage_def
        Graph_displayZoomWheelInfoMessage_def)
  show ?thesis
    using answers once shown
      handleDisplay_repeated[where props = props and n = n and host = "(st, calls)"]
      handleDisplay_zoomLevel[where props = props and n = n and host = "(st, calls)"]
    by simp
qed


text \<open>
  Three wheel events without a modifier key, with the handler of a Graph component that
  has the policy and the message enabled as the callback, from the initial state: all
  three are rejected, \<open>displayZoomWheelInfoMessage\<close> is called once, and the overlay is
  shown.
\<close>

theorem bare_wheel_events_suppressed_witness:
  "truthy (Some True) \<and> list_all bare_wheel [sample_wheel, sample_wheel, sample_wheel]
   \<and> filter_all (Some True) (Graph_handleDisplayZoomWheelInfoMessage sample_props)
        [sample_wheel, sample_wheel, sample_wheel] (Graph_initial_state, [])
      = ([False, False, False],
         (Graph_initial_state\<lparr>displayingWheelZoomInfoMessage := True\<rparr>, [True]))
   \<and> (\<not> displayingWheelZoomInfoMessage Graph_initial_state
      \<and> truthy (props_wheelZoomRequiresModKey sample_props)
      \<and> truthy (wheelZoomInfoMessageEnabled sample_props))
   \<and> overlay_shown sample_props
        (fst ((Graph_handleDisplayZoomWheelInfoMessage sample_props ^^ 3)
                (Graph_initial_state, [])))"
proof -
  let ?h = "Graph_handleDisplayZoomWheelInfoMessage sample_props"
  let ?on = "Graph_initial_state\<lparr>displayingWheelZoomInfoMessage := True\<rparr>"
  have t: "truthy (Some True)" by (simp add: truthy_def)
  have b: "list_all bare_wheel [sample_wheel, sample_wheel, sample_wheel]"
    by (simp add: bare_wheel_def sample_wheel_def)
  have p: "\<not> displayingWheelZoomInfoMessage Graph_initial_state
      \<and> truthy (props_wheelZoomRequiresModKey sample_props)
      \<and> truthy (wheelZoomInfoMessageEnabled sample_props)"
    by (simp add: truthy_def sample_props_def Graph_initial_state_def)
  have one: "?h (Graph_initial_state, []) = (?on, [True])"
    by (simp add: Graph_handleDisplayZoomWheelInfoMessage_def
        Graph_displayZoomWheelInfoMessage_def truthy_def sample_props_def
        Graph_initial_state_def)
  note inst = bare_wheel_events_suppressed [OF t b, where callback = "?h" and host = "(Graph_initial_state, [])"
      and props = sample_props and n = 2 and st = Graph_initial_state and calls = "[]"]
  have three: "(3 :: nat) = Suc 2" by simp
  from inst one
  have run: "filter_all (Some True) ?h [sample_wheel, sample_wheel, sample_wheel]
       (Graph_initial_state, []) = ([False, False, False], (?on, [True]))"
    by (simp add: numeral_3_eq_3)
  from inst p
  have shown: "overlay_shown sample_props (fst ((?h ^^ 3) (Graph_initial_state, [])))"
    unfolding three by blast
  show ?thesis using t b run p shown by blast
qed

text \<open>
  The claim of C6 has the message displayed on the first suppression. It is not when
  the Graph component has the message disabled (\<open>wheelZoomInfoMessageEnabled\<close> is
  undefined): three wheel events without a modifier key are rejected, and with its
  handler as the callback \<open>displayZoomWheelInfoMessage\<close> is never called and the overlay
  is not shown.
\<close>

theorem info_message_disabled_never_displayed:
  "truthy (Some True) \<and> bare_wheel sample_wheel
   \<and> filter_all (Some True)
        (Graph_handleDisplayZoomWheelInfoMessage
           (sample_props\<lparr>wheelZoomInfoMessageEnabled := None\<rparr>))
        [sample_wheel, sample_wheel, sample_wheel] (Graph_initial_state, [])
      = ([False, False, False], (Graph_initial_state, []))
   \<and> \<not> displayingWheelZoomInfoMessage Graph_initial_state
   \<and> \<not> overlay_shown (sample_props\<lparr>wheelZoomInfoMessageEnabled := None\<rparr>)
          Graph_initial_state"
  by (simp add: truthy_def bare_wheel_def sample_wheel_def zoomBehavior_filter_def
      Graph_handleDisplayZoomWheelInfoMessage_def Graph_displayZoomWheelInfoMessage_def
      sample_props_def Graph_initial_state_def overlay_shown_def)

section \<open>Dispatch by the callback registry\<close>

lemma on_own_name:
  "event \<notin> set Object_prototype_names \<Longrightarrow>
     on event callback callbacks
       = Inr (callbacks(event \<mapsto> registered callbacks event @ [callback]))"
  by (simp add: on_def get_property_def registered_def split: option.splits)

lemma trigger_own_name:
  "event \<notin> set Object_prototype_names \<Longrightarrow>
     trigger event args callbacks
       = Inr (map (\<lambda>callback. (callback, args)) (registered callbacks event))"
  by (simp add: trigger_def get_property_def registered_def split: option.splits)

lemma on_all_registered:
  "list_all (\<lambda>r. fst r \<notin> set Object_prototype_names) regs \<Longrightarrow>
     \<exists>callbacks'. on_all regs callbacks = Inr callbacks'
       \<and> (\<forall>event. registered callbacks' event
              = registered callbacks event @ map snd (filter (\<lambda>r. fst r = event) regs))"
proof (induction regs arbitrary: callbacks)
  case Nil
  then show ?case by simp
next
  case (Cons r regs)
  obtain e cb where r: "r = (e, cb)" by (cases r)
  from Cons.prems r have e: "e \<notin> set Object_prototype_names"
    and rest: "list_all (\<lambda>r. fst r \<notin> set Object_prototype_names) regs" by simp_all
  let ?m = "callbacks(e \<mapsto> registered callbacks e @ [cb])"
  from Cons.IH[OF rest, of ?m] obtain callbacks' where
    run: "on_all regs ?m = Inr callbacks'"
    and reg: "\<forall>event. registered callbacks' event
              = registered ?m event @ map snd (filter (\<lambda>r. fst r = event) regs)"
    by blast
  have "on_all (r # regs) callbacks = Inr callbacks'"
    using run by (simp add: r on_own_name[OF e])
  moreover have "\<forall>event. registered callbacks' event
      = registered callbacks event @ map snd (filter (\<lambda>r. fst r = event) (r # regs))"
    using reg by (simp add: r registered_def)
  ultimately show ?case by blast
qed

text \<open>
  For event names that are not names of \<open>Object.prototype\<close> the registry is as C10
  words it: after any registrations, \<open>trigger\<close> calls exactly the callbacks registered
  for its event name, in the order of registration, each with the arguments of
  \<open>trigger\<close>; registrations for other names do not count, and a name with no
  registration gives no call and no error.
\<close>

lemma registry_dispatch:
  assumes "event \<notin> set Object_prototype_names"
    and "list_all (\<lambda>r. fst r \<notin> set Object_prototype_names) regs"
  shows "\<exists>callbacks. on_all regs Map.empty = Inr callbacks
     \<and> trigger event args callbacks
         = Inr (map (\<lambda>callback. (callback, args))
                  (map snd (filter (\<lambda>r. fst r = event) regs)))"
proof -
  from on_all_registered[OF assms(2), of Map.empty] obtain callbacks where
    run: "on_all regs Map.empty = Inr callbacks"
    and reg: "\<forall>event. registered callbacks event
              = registered Map.empty event @ map snd (filter (\<lambda>r. fst r = event) regs)"
    by blast
  have "registered callbacks event = map snd (filter (\<lambda>r. fst r = event) regs)"
    using reg by (simp add: registered_def)
  then show ?thesis using run trigger_own_name[OF assms(1), of args callbacks] by simp
qed

text \<open>
  C10. The claim is for every event name. For the names of \<open>Object.prototype\<close> the source
  throws: with no callback registered, \<open>trigger('constructor')\<close> and
  \<open>trigger('toString')\<close> are not the no-op the claim has, and \<open>on('constructor', _)\<close>
  registers nothing; \<open>trigger('updated')\<close> is the no-op.
\<close>

theorem trigger_inherited_name_throws:
  "trigger ''constructor'' args Map.empty = Inl TypeError
   \<and> on ''constructor'' callback Map.empty = Inl TypeError
   \<and> trigger ''toString'' args Map.empty = Inl TypeError
   \<and> trigger ''updated'' args Map.empty = Inr []"
  by (simp add: trigger_def on_def get_property_def Object_prototype_names_def)

end
